theory Spec2Isabelle
  imports Main "HOL-Library.Word"
begin

section \<open>Data model\<close>

text \<open>
  The repository holds two variants of the same program: the file whose name is not
  known (called the full variant below) and \<^verbatim>\<open>main.go\<close>. Both declare the same
  types; \<^verbatim>\<open>findTag\<close>, \<^verbatim>\<open>cleanEmptyTags\<close>, \<^verbatim>\<open>saveData\<close> and the handlers of
  \<^verbatim>\<open>/st\<close>, \<^verbatim>\<open>/lt\<close> and \<^verbatim>\<open>/mt\<close> are the same in both up to the text of the
  replies. Where the variants differ, the definition taken from \<^verbatim>\<open>main.go\<close> carries
  the suffix \<open>_main\<close>.

  Go's \<^verbatim>\<open>int64\<close> is a 64-bit word, read as two's complement by \<open>sint\<close>. A Go string
  is its sequence of bytes, and \<^verbatim>\<open>len\<close> counts bytes: \<open>string\<close> and \<open>length\<close>.
  A \<^verbatim>\<open>time.Time\<close> is the instant on the wall clock and, in a value that \<^verbatim>\<open>time.Now\<close>
  returned, the reading of the monotonic clock of the running process; both take part in
  the comparison of two values. The zero \<^verbatim>\<open>time.Time\<close> is \<open>0\<close>. The location of a time is
  left out.
\<close>

type_synonym int64 = "64 word"
datatype Time = Time (wall: int) (monotonic: "int option")

instantiation Time :: zero
begin

definition zero_Time :: Time where
  "zero_Time = Time 0 None"

instance ..

end

record Subscriber =
  ID :: int64
  Username :: string

record Tag =
  Name :: string
  CreatorID :: int64
  CreatorName :: string
  Description :: string
  Subscribers :: "Subscriber list"
  CreatedAt :: Time

record Data =
  Tags :: "Tag list"

text \<open>The types \<^verbatim>\<open>OldTag\<close> and \<^verbatim>\<open>OldData\<close> declared inside \<^verbatim>\<open>loadData\<close>.\<close>

record OldTag =
  old_Name :: string
  old_CreatorID :: int64
  old_CreatorName :: string
  old_Description :: string
  old_Subscribers :: "int64 list"
  old_CreatedAt :: Time

record OldData =
  old_Tags :: "OldTag list"

text \<open>
  The library functions the program calls and the repository does not define are
  parameters:
  \<^item> \<^verbatim>\<open>strings.ToLower\<close>;
  \<^item> \<^verbatim>\<open>json.MarshalIndent(data, "", "  ")\<close>, \<open>None\<close> when it returns an error;
  \<^item> \<^verbatim>\<open>json.Unmarshal(file, &data)\<close>, from the bytes of the file and the \<^verbatim>\<open>data\<close> it
    decodes into: whether it returned \<^verbatim>\<open>nil\<close>, and \<^verbatim>\<open>data\<close> afterwards (the decoder
    may have stored a part of the document before it fails);
  \<^item> \<^verbatim>\<open>json.Unmarshal(file, &oldData)\<close> into the fresh \<^verbatim>\<open>oldData\<close>, \<open>None\<close> when it
    returns an error.
\<close>

record 'f lib =
  toLower :: "string \<Rightarrow> string"
  marshalIndent :: "Data \<Rightarrow> 'f option"
  unmarshalData :: "'f \<Rightarrow> Data \<Rightarrow> bool \<times> Data"
  unmarshalOldData :: "'f \<Rightarrow> OldData option"

text \<open>
  The state a handler works on: the global \<^verbatim>\<open>data\<close>, and the file \<^verbatim>\<open>tags.json\<close>
  (\<open>None\<close> when \<^verbatim>\<open>os.Stat\<close> reports that it does not exist; its contents are of the
  type \<open>'f\<close> that the library functions write and read) with whether
  \<^verbatim>\<open>ioutil.ReadFile\<close> and \<^verbatim>\<open>ioutil.WriteFile\<close> succeed on it. A write that fails
  is taken to leave the file as it was.
\<close>

record 'f World =
  data :: Data
  dataFile :: "'f option"
  can_read :: bool
  can_write :: bool

datatype error =
    MarshalError
  | WriteError
  | ReadError
  | FailedUnmarshalOldAndNew
  | FailedSaveMigrated error

text \<open>The sender of a message: \<^verbatim>\<open>c.Sender().ID\<close> and \<^verbatim>\<open>c.Sender().Username\<close>.\<close>

record Sender =
  sender_ID :: int64
  sender_Username :: string

text \<open>
  What a handler passes to \<^verbatim>\<open>c.Send\<close>, one constructor for each message of the source,
  with the values formatted into it. The spec's error kinds are these replies:
  \<open>CtUsage\<close> and \<open>NameTooLong\<close> are \<^verbatim>\<open>InvalidName\<close>, \<open>TagExists\<close> is
  \<^verbatim>\<open>DuplicateTag\<close>, \<open>LimitReached\<close> is \<^verbatim>\<open>QuotaExceeded\<close>, \<open>DescTooLong\<close> is
  \<^verbatim>\<open>DescriptionTooLong\<close>, \<open>TagNotFound\<close> is \<^verbatim>\<open>NotFound\<close>, \<open>DtForbidden\<close> is
  \<^verbatim>\<open>Forbidden\<close>.
\<close>

datatype reply =
    CtUsage
  | NameTooLong
  | TagExists
  | LimitReached
  | DescTooLong
  | Created string string string
  | StUsage
  | TagNotFound
  | AlreadySubscribed
  | Subscribed string
  | DtUsage
  | DtForbidden
  | Deleted string
  | NoTags
  | TagList "(string \<times> nat \<times> string) list"
  | MyTags "(string \<times> string) list"
  | Stats "(string \<times> nat) list"
  | Mentions "string list"
  | Responses "(string list \<times> string) list"

text \<open>
  What a handler does: it panics (the slice expression \<^verbatim>\<open>strings.Fields(c.Text())[1:]\<close>
  on an empty slice), it sends a reply, or it returns \<^verbatim>\<open>nil\<close> without sending.
\<close>

datatype outcome = Panic | Sent reply | Nil

section \<open>Helpers of the standard library\<close>

text \<open>\<^verbatim>\<open>strings.Join(elems, " ")\<close>.\<close>

fun join_space :: "string list \<Rightarrow> string" where
  "join_space [] = []"
| "join_space [s] = s"
| "join_space (s # t # rest) = s @ CHR '' '' # join_space (t # rest)"

text \<open>\<^verbatim>\<open>fmt.Sprintf("%d", i)\<close>: the decimal digits, with a minus sign below zero.\<close>

definition digit :: "nat \<Rightarrow> char" where
  "digit n = ''0123456789'' ! n"

function digits :: "nat \<Rightarrow> string" where
  "digits n = (if n < 10 then [digit n] else digits (n div 10) @ [digit (n mod 10)])"
  by pat_completeness auto
termination
  by (relation "measure id") auto

declare digits.simps [simp del]

definition format_d :: "int \<Rightarrow> string" where
  "format_d i = (if i < 0 then CHR ''-'' # digits (nat (- i)) else digits (nat i))"

text \<open>\<^verbatim>\<open>fmt.Sprintf("User%d", id)\<close>, the placeholder username.\<close>

definition placeholder :: "int64 \<Rightarrow> string" where
  "placeholder i = ''User'' @ format_d (sint i)"

section \<open>Persistence\<close>

text \<open>\<^verbatim>\<open>saveData\<close>: the error it returns and the state after it.\<close>

definition saveData :: "'f lib \<Rightarrow> 'f World \<Rightarrow> error option \<times> 'f World" where
  "saveData L w =
     (case marshalIndent L (data w) of
        None \<Rightarrow> (Some MarshalError, w)
      | Some bytes \<Rightarrow>
          if can_write w then (None, w\<lparr>dataFile := Some bytes\<rparr>) else (Some WriteError, w))"

text \<open>
  The conversion loops of \<^verbatim>\<open>loadData\<close>: each old subscriber id becomes a
  \<^verbatim>\<open>Subscriber\<close> with the placeholder username.
\<close>

definition convertSubscriber :: "int64 \<Rightarrow> Subscriber" where
  "convertSubscriber subID = \<lparr>ID = subID, Username = placeholder subID\<rparr>"

definition convertTag :: "OldTag \<Rightarrow> Tag" where
  "convertTag oldTag =
     \<lparr>Name = old_Name oldTag,
      CreatorID = old_CreatorID oldTag,
      CreatorName = old_CreatorName oldTag,
      Description = old_Description oldTag,
      Subscribers = map convertSubscriber (old_Subscribers oldTag),
      CreatedAt = old_CreatedAt oldTag\<rparr>"

text \<open>
  The result of \<^verbatim>\<open>loadData\<close>: \<^verbatim>\<open>log.Fatal\<close> ends the process, otherwise the function
  returns an error or \<^verbatim>\<open>nil\<close>.
\<close>

datatype load_result = Fatal | Returned "error option"

text \<open>
  \<^verbatim>\<open>loadData\<close> of the full variant. \<open>dotenv_ok\<close> says that \<^verbatim>\<open>godotenv.Load\<close> returned
  no error and \<open>token\<close> is the environment variable \<^verbatim>\<open>TELEGRAM_BOT_TOKEN\<close>.
\<close>

definition loadData :: "'f lib \<Rightarrow> bool \<Rightarrow> string \<Rightarrow> 'f World \<Rightarrow> load_result \<times> 'f World" where
  "loadData L dotenv_ok token w =
     (if \<not> dotenv_ok then (Fatal, w)
      else if token = [] then (Fatal, w)
      else (case dataFile w of
        None \<Rightarrow>
          (case saveData L (w\<lparr>data := \<lparr>Tags = []\<rparr>\<rparr>) of (err, w') \<Rightarrow> (Returned err, w'))
      | Some bytes \<Rightarrow>
          if \<not> can_read w then (Returned (Some ReadError), w)
          else (case unmarshalData L bytes (data w) of
            (True, d) \<Rightarrow> (Returned None, w\<lparr>data := d\<rparr>)
          | (False, d) \<Rightarrow>
              (case unmarshalOldData L bytes of
                 None \<Rightarrow> (Returned (Some FailedUnmarshalOldAndNew), w\<lparr>data := d\<rparr>)
               | Some oldData \<Rightarrow>
                   (case saveData L (w\<lparr>data := d\<lparr>Tags := map convertTag (old_Tags oldData)\<rparr>\<rparr>) of
                      (Some e, w') \<Rightarrow> (Returned (Some (FailedSaveMigrated e)), w')
                    | (None, w') \<Rightarrow> (Returned None, w'))))))"

section \<open>Lookup and pruning\<close>

text \<open>
  \<^verbatim>\<open>findTag\<close> returns \<^verbatim>\<open>&data.Tags[i]\<close> for the first \<open>i\<close> whose lower-cased name is the
  lower-cased argument, or \<^verbatim>\<open>nil\<close>: the model returns the index \<open>i\<close>.
\<close>

fun findTag_loop :: "'f lib \<Rightarrow> string \<Rightarrow> nat \<Rightarrow> Tag list \<Rightarrow> nat option" where
  "findTag_loop L name i [] = None"
| "findTag_loop L name i (tag # rest) =
     (if toLower L (Name tag) = name then Some i else findTag_loop L name (Suc i) rest)"

definition findTag :: "'f lib \<Rightarrow> Data \<Rightarrow> string \<Rightarrow> nat option" where
  "findTag L d name = findTag_loop L (toLower L name) 0 (Tags d)"

text \<open>\<^verbatim>\<open>cleanEmptyTags\<close>: the loop that builds \<^verbatim>\<open>newTags\<close>, then the assignment and the save,
  whose error is dropped.\<close>

fun cleanEmptyTags_loop :: "Tag list \<Rightarrow> Tag list \<Rightarrow> Tag list" where
  "cleanEmptyTags_loop newTags [] = newTags"
| "cleanEmptyTags_loop newTags (tag # rest) =
     cleanEmptyTags_loop (if length (Subscribers tag) > 0 then newTags @ [tag] else newTags) rest"

definition cleanEmptyTags :: "'f lib \<Rightarrow> 'f World \<Rightarrow> 'f World" where
  "cleanEmptyTags L w =
     snd (saveData L (w\<lparr>data := (data w)\<lparr>Tags := cleanEmptyTags_loop [] (Tags (data w))\<rparr>\<rparr>))"

section \<open>The command handlers\<close>

text \<open>
  A handler takes \<open>words\<close>, the result of \<^verbatim>\<open>strings.Fields(c.Text())\<close>, whose first
  element is the command itself; \<open>args\<close> is the rest. The sender is taken to be present
  (\<^verbatim>\<open>c.Sender()\<close> is not \<^verbatim>\<open>nil\<close>). \<open>now\<close> is \<^verbatim>\<open>time.Now()\<close>, a time with a
  monotonic clock reading.
\<close>

text \<open>The loop of \<^verbatim>\<open>/ct\<close> that counts the tags of the sender in \<^verbatim>\<open>userTags\<close>.\<close>

fun userTags_loop :: "int64 \<Rightarrow> nat \<Rightarrow> Tag list \<Rightarrow> nat" where
  "userTags_loop sid userTags [] = userTags"
| "userTags_loop sid userTags (tag # rest) =
     userTags_loop sid (if CreatorID tag = sid then Suc userTags else userTags) rest"

text \<open>\<^verbatim>\<open>/ct\<close> of the full variant.\<close>

definition handle_ct :: "'f lib \<Rightarrow> Sender \<Rightarrow> Time \<Rightarrow> string list \<Rightarrow> 'f World \<Rightarrow> outcome \<times> 'f World" where
  "handle_ct L sender now words w =
     (case words of
        [] \<Rightarrow> (Panic, w)
      | cmd # args \<Rightarrow>
          if length args = 0 then (Sent CtUsage, w)
          else let tagName = hd args in
            if length tagName > 50 then (Sent NameTooLong, w)
            else if findTag L (data w) tagName \<noteq> None then (Sent TagExists, w)
            else if userTags_loop (sender_ID sender) 0 (Tags (data w)) \<ge> 10
              then (Sent LimitReached, w)
            else let description = (if length args > 1 then join_space (tl args) else []) in
              if length args > 1 \<and> length description > 100 then (Sent DescTooLong, w)
              else let tag = \<lparr>Name = tagName,
                              CreatorID = sender_ID sender,
                              CreatorName = sender_Username sender,
                              Description = description,
                              Subscribers = [],
                              CreatedAt = now\<rparr>;
                       w1 = w\<lparr>data := (data w)\<lparr>Tags := Tags (data w) @ [tag]\<rparr>\<rparr>
                   in (Sent (Created (sender_Username sender) tagName description),
                       snd (saveData L w1)))"

text \<open>\<^verbatim>\<open>/ct\<close> of \<^verbatim>\<open>main.go\<close>: no length check and no limit.\<close>

definition handle_ct_main :: "'f lib \<Rightarrow> Sender \<Rightarrow> Time \<Rightarrow> string list \<Rightarrow> 'f World \<Rightarrow> outcome \<times> 'f World" where
  "handle_ct_main L sender now words w =
     (case words of
        [] \<Rightarrow> (Panic, w)
      | cmd # args \<Rightarrow>
          if length args = 0 then (Sent CtUsage, w)
          else let tagName = hd args in
            if findTag L (data w) tagName \<noteq> None then (Sent TagExists, w)
            else let description = (if length args > 1 then join_space (tl args) else []);
                     tag = \<lparr>Name = tagName,
                            CreatorID = sender_ID sender,
                            CreatorName = sender_Username sender,
                            Description = description,
                            Subscribers = [],
                            CreatedAt = now\<rparr>;
                     w1 = w\<lparr>data := (data w)\<lparr>Tags := Tags (data w) @ [tag]\<rparr>\<rparr>
                 in (Sent (Created (sender_Username sender) tagName description),
                     snd (saveData L w1)))"

text \<open>The loop of \<^verbatim>\<open>/st\<close> that looks for the sender among the subscribers.\<close>

fun subscribed :: "int64 \<Rightarrow> Subscriber list \<Rightarrow> bool" where
  "subscribed sid [] = False"
| "subscribed sid (sub # rest) = (if ID sub = sid then True else subscribed sid rest)"

text \<open>
  \<^verbatim>\<open>/st\<close>, the same in both variants. \<^verbatim>\<open>tag\<close> points into \<^verbatim>\<open>data.Tags\<close>, so the
  assignment to \<^verbatim>\<open>tag.Subscribers\<close> updates the element at the index found.
\<close>

definition handle_st :: "'f lib \<Rightarrow> Sender \<Rightarrow> string list \<Rightarrow> 'f World \<Rightarrow> outcome \<times> 'f World" where
  "handle_st L sender words w =
     (case words of
        [] \<Rightarrow> (Panic, w)
      | cmd # args \<Rightarrow>
          if length args = 0 then (Sent StUsage, w)
          else (case findTag L (data w) (hd args) of
            None \<Rightarrow> (Sent TagNotFound, w)
          | Some i \<Rightarrow>
              let tag = Tags (data w) ! i in
              if subscribed (sender_ID sender) (Subscribers tag) then (Sent AlreadySubscribed, w)
              else let username = (if sender_Username sender = []
                                   then placeholder (sender_ID sender)
                                   else sender_Username sender);
                       tag' = tag\<lparr>Subscribers := Subscribers tag @
                                [\<lparr>ID = sender_ID sender, Username = username\<rparr>]\<rparr>;
                       w1 = w\<lparr>data := (data w)\<lparr>Tags := (Tags (data w))[i := tag']\<rparr>\<rparr>
                   in (Sent (Subscribed (Name tag')), snd (saveData L w1))))"

text \<open>
  The loops of \<^verbatim>\<open>/dt\<close>: the search for the sender among the administrators of the
  chat, and the copy of the tags whose lower-cased name differs from the found tag's.
\<close>

fun isAdmin_loop :: "int64 \<Rightarrow> int64 list \<Rightarrow> bool" where
  "isAdmin_loop sid [] = False"
| "isAdmin_loop sid (admin # rest) = (if admin = sid then True else isAdmin_loop sid rest)"

fun removeTag_loop :: "'f lib \<Rightarrow> string \<Rightarrow> Tag list \<Rightarrow> Tag list \<Rightarrow> Tag list" where
  "removeTag_loop L name newTags [] = newTags"
| "removeTag_loop L name newTags (t # rest) =
     removeTag_loop L name
       (if toLower L (Name t) \<noteq> toLower L name then newTags @ [t] else newTags) rest"

text \<open>
  \<^verbatim>\<open>/dt\<close> of the full variant. \<open>admins\<close> is \<open>None\<close> when \<^verbatim>\<open>c.Chat()\<close> is \<^verbatim>\<open>nil\<close> or
  \<^verbatim>\<open>bot.AdminsOf\<close> returns an error, and otherwise the \<^verbatim>\<open>User.ID\<close> of each
  administrator.
\<close>

definition handle_dt :: "'f lib \<Rightarrow> Sender \<Rightarrow> int64 list option \<Rightarrow> string list \<Rightarrow> 'f World \<Rightarrow> outcome \<times> 'f World" where
  "handle_dt L sender admins words w =
     (case words of
        [] \<Rightarrow> (Panic, w)
      | cmd # args \<Rightarrow>
          if length args = 0 then (Sent DtUsage, w)
          else (case findTag L (data w) (hd args) of
            None \<Rightarrow> (Sent TagNotFound, w)
          | Some i \<Rightarrow>
              let tag = Tags (data w) ! i;
                  isAdmin = (case admins of
                               None \<Rightarrow> False
                             | Some ids \<Rightarrow> isAdmin_loop (sender_ID sender) ids)
              in if CreatorID tag \<noteq> sender_ID sender \<and> \<not> isAdmin then (Sent DtForbidden, w)
                 else let newTags = removeTag_loop L (Name tag) [] (Tags (data w));
                          w1 = w\<lparr>data := (data w)\<lparr>Tags := newTags\<rparr>\<rparr>
                      in (Sent (Deleted (Name tag)), snd (saveData L w1))))"

text \<open>\<^verbatim>\<open>/dt\<close> of \<^verbatim>\<open>main.go\<close>: only the creator deletes.\<close>

definition handle_dt_main :: "'f lib \<Rightarrow> Sender \<Rightarrow> string list \<Rightarrow> 'f World \<Rightarrow> outcome \<times> 'f World" where
  "handle_dt_main L sender words w =
     (case words of
        [] \<Rightarrow> (Panic, w)
      | cmd # args \<Rightarrow>
          if length args = 0 then (Sent DtUsage, w)
          else (case findTag L (data w) (hd args) of
            None \<Rightarrow> (Sent TagNotFound, w)
          | Some i \<Rightarrow>
              let tag = Tags (data w) ! i
              in if CreatorID tag \<noteq> sender_ID sender then (Sent DtForbidden, w)
                 else let newTags = removeTag_loop L (Name tag) [] (Tags (data w));
                          w1 = w\<lparr>data := (data w)\<lparr>Tags := newTags\<rparr>\<rparr>
                      in (Sent (Deleted (Name tag)), snd (saveData L w1))))"

text \<open>
  \<^verbatim>\<open>/lt\<close>, the same in both variants: one line for each tag, with its name, the number
  of its subscribers and its description.
\<close>

definition handle_lt :: "'f lib \<Rightarrow> 'f World \<Rightarrow> outcome \<times> 'f World" where
  "handle_lt L w =
     (let w' = cleanEmptyTags L w in
      if length (Tags (data w')) = 0 then (Sent NoTags, w')
      else (Sent (TagList (map (\<lambda>tag. (Name tag, length (Subscribers tag), Description tag))
                             (Tags (data w')))), w'))"

text \<open>
  \<^verbatim>\<open>/mt\<close>, the same in both variants: one line for each subscriber entry of the sender,
  in each tag; an empty list of lines stands for the reply that nothing was found.
\<close>

fun mt_inner :: "int64 \<Rightarrow> Tag \<Rightarrow> (string \<times> string) list \<Rightarrow> Subscriber list \<Rightarrow> (string \<times> string) list" where
  "mt_inner sid tag response [] = response"
| "mt_inner sid tag response (sub # rest) =
     mt_inner sid tag
       (if ID sub = sid then response @ [(Name tag, Description tag)] else response) rest"

fun mt_loop :: "int64 \<Rightarrow> (string \<times> string) list \<Rightarrow> Tag list \<Rightarrow> (string \<times> string) list" where
  "mt_loop sid response [] = response"
| "mt_loop sid response (tag # rest) =
     mt_loop sid (mt_inner sid tag response (Subscribers tag)) rest"

definition handle_mt :: "Sender \<Rightarrow> 'f World \<Rightarrow> outcome \<times> 'f World" where
  "handle_mt sender w = (Sent (MyTags (mt_loop (sender_ID sender) [] (Tags (data w)))), w)"

text \<open>\<^verbatim>\<open>/stats\<close> of the full variant, and of \<^verbatim>\<open>main.go\<close>, which has no reply of its own
  for an empty list.\<close>

definition handle_stats :: "'f lib \<Rightarrow> 'f World \<Rightarrow> outcome \<times> 'f World" where
  "handle_stats L w =
     (let w' = cleanEmptyTags L w in
      if length (Tags (data w')) = 0 then (Sent NoTags, w')
      else (Sent (Stats (map (\<lambda>tag. (Name tag, length (Subscribers tag))) (Tags (data w')))), w'))"

definition handle_stats_main :: "'f lib \<Rightarrow> 'f World \<Rightarrow> outcome \<times> 'f World" where
  "handle_stats_main L w =
     (let w' = cleanEmptyTags L w in
      (Sent (Stats (map (\<lambda>tag. (Name tag, length (Subscribers tag))) (Tags (data w')))), w'))"

section \<open>Mentions\<close>

text \<open>
  The loop over the subscribers of a mentioned tag, the same in both variants: it
  appends \<^verbatim>\<open>"@" + sub.Username\<close> for each subscriber whose username is not empty and is
  not the placeholder of its id.
\<close>

fun mentions_loop :: "string list \<Rightarrow> Subscriber list \<Rightarrow> string list" where
  "mentions_loop mentions [] = mentions"
| "mentions_loop mentions (sub # rest) =
     mentions_loop
       (if Username sub \<noteq> [] \<and> Username sub \<noteq> placeholder (ID sub)
        then mentions @ [CHR ''@'' # Username sub] else mentions) rest"

text \<open>
  \<^verbatim>\<open>OnText\<close> of the full variant, on the fields of the text. The text contains
  \<^verbatim>\<open>"#"\<close> exactly when one of its fields does. A field with the prefix \<^verbatim>\<open>"#"\<close> names
  the tag that follows the prefix.
\<close>

fun onText_loop :: "'f lib \<Rightarrow> Data \<Rightarrow> string list \<Rightarrow> string list \<Rightarrow> string list" where
  "onText_loop L d mentions [] = mentions"
| "onText_loop L d mentions (word # rest) =
     onText_loop L d
       (case word of
          [] \<Rightarrow> mentions
        | c # tagName \<Rightarrow>
            if c = CHR ''#'' then
              (case findTag L d tagName of
                 None \<Rightarrow> mentions
               | Some i \<Rightarrow> mentions_loop mentions (Subscribers (Tags d ! i)))
            else mentions) rest"

definition onText :: "'f lib \<Rightarrow> string list \<Rightarrow> 'f World \<Rightarrow> outcome \<times> 'f World" where
  "onText L words w =
     (if \<not> list_ex (\<lambda>word. CHR ''#'' \<in> set word) words then (Nil, w)
      else let mentions = onText_loop L (data w) [] words in
        if length mentions > 0 then (Sent (Mentions mentions), w) else (Nil, w))"

text \<open>
  \<^verbatim>\<open>OnText\<close> of \<^verbatim>\<open>main.go\<close>, on \<open>matches\<close>: the first group of each match of the
  regular expression in the text, in the order of the text. A response is the mentions
  of one tag with the name that was matched; the phrase that follows them is drawn at
  random and formatted with that name.
\<close>

fun onText_main_loop :: "'f lib \<Rightarrow> Data \<Rightarrow> (string list \<times> string) list \<Rightarrow> string list \<Rightarrow> (string list \<times> string) list" where
  "onText_main_loop L d responses [] = responses"
| "onText_main_loop L d responses (tagName # rest) =
     onText_main_loop L d
       (case findTag L d tagName of
          None \<Rightarrow> responses
        | Some i \<Rightarrow>
            let mentions = mentions_loop [] (Subscribers (Tags d ! i)) in
            if length mentions > 0 then responses @ [(mentions, tagName)] else responses) rest"

definition onText_main :: "'f lib \<Rightarrow> string list \<Rightarrow> 'f World \<Rightarrow> outcome \<times> 'f World" where
  "onText_main L matches w =
     (let responses = onText_main_loop L (data w) [] matches in
      if length responses > 0 then (Sent (Responses responses), w) else (Nil, w))"

section \<open>The JSON library\<close>

text \<open>
  \<^verbatim>\<open>encoding/json\<close> and the JSON methods of \<^verbatim>\<open>time.Time\<close> are not code of this
  repository. The handlers and \<^verbatim>\<open>loadData\<close> above take them as parameters; this section
  models them, from the documentation of the two packages, on the types of the program,
  for what a saved file becomes when it is loaded again.

  The contents of the file are kept as the JSON value that the text denotes, or as
  \<open>Invalid\<close> when the text is not JSON. \<open>JNumber\<close> is a number written as an integer
  and \<open>JFraction\<close> any other number. \<open>JTime i\<close> is the JSON string that
  \<^verbatim>\<open>time.Time\<close> marshals the instant \<open>i\<close> to (RFC 3339 with nanoseconds), kept as the
  instant it denotes; \<open>JString\<close> is a JSON string with any other text.
\<close>

datatype json =
    JNull
  | JBool bool
  | JNumber int
  | JFraction
  | JString string
  | JTime int
  | JArray "json list"
  | JObject "(string \<times> json) list"

datatype contents = Invalid | Valid json

text \<open>
  \<^verbatim>\<open>json.MarshalIndent\<close> up to the layout of the text: a struct is an object with the
  names of the field tags, in the order of the fields, and a \<^verbatim>\<open>time.Time\<close> is the text
  of its instant: its JSON form omits the monotonic clock reading. Left out: a slice
  that is \<^verbatim>\<open>nil\<close> is marshalled as \<^verbatim>\<open>null\<close>, which decodes to an empty list as well;
  bytes that are not UTF-8 are replaced, and a year outside 0 to 9999 is an error, but
  the strings and times of the program come from \<^verbatim>\<open>time.Now\<close> and from decoded JSON,
  where neither occurs.
\<close>

definition encodeSubscriber :: "Subscriber \<Rightarrow> json" where
  "encodeSubscriber sub =
     JObject [(''id'', JNumber (sint (ID sub))), (''username'', JString (Username sub))]"

definition encodeTag :: "Tag \<Rightarrow> json" where
  "encodeTag tag =
     JObject [(''name'', JString (Name tag)),
              (''creator_id'', JNumber (sint (CreatorID tag))),
              (''creator_name'', JString (CreatorName tag)),
              (''description'', JString (Description tag)),
              (''subscribers'', JArray (map encodeSubscriber (Subscribers tag))),
              (''created_at'', JTime (wall (CreatedAt tag)))]"

definition encodeData :: "Data \<Rightarrow> json" where
  "encodeData d = JObject [(''tags'', JArray (map encodeTag (Tags d)))]"

text \<open>
  \<^verbatim>\<open>json.Unmarshal\<close>. A member of an object is looked up by the name of the field tag;
  when the name occurs more than once the last member decides, since the decoder stores
  the members in their order (that it also accepts a name in another letter case is
  left out). A field whose member is missing or is \<^verbatim>\<open>null\<close> keeps the value it has,
  which is the zero value in the freshly made values decoded here. A number is stored in
  an \<^verbatim>\<open>int64\<close> when it is written as an integer and fits; a string is stored in a
  string; a \<^verbatim>\<open>time.Time\<close> takes the text of a time and gets no monotonic clock reading;
  an array is stored in a slice, element by element; an object is stored in a struct;
  every other combination is an error.
\<close>

definition member :: "(string \<times> json) list \<Rightarrow> string \<Rightarrow> json option" where
  "member fs key = map_of (rev fs) key"

text \<open>The value a field gets from the members \<open>fs\<close> of an object.\<close>

definition field :: "(json \<Rightarrow> 'a option) \<Rightarrow> 'a \<Rightarrow> (string \<times> json) list \<Rightarrow> string \<Rightarrow> 'a option" where
  "field decode zero fs key = (case member fs key of None \<Rightarrow> Some zero | Some v \<Rightarrow> decode v)"

fun decodeString :: "(int \<Rightarrow> string) \<Rightarrow> json \<Rightarrow> string option" where
  "decodeString formatTime (JString s) = Some s"
| "decodeString formatTime (JTime i) = Some (formatTime i)"
| "decodeString formatTime JNull = Some []"
| "decodeString formatTime _ = None"

fun decodeInt64 :: "json \<Rightarrow> int64 option" where
  "decodeInt64 (JNumber n) = (if - (2 ^ 63) \<le> n \<and> n < 2 ^ 63 then Some (word_of_int n) else None)"
| "decodeInt64 JNull = Some 0"
| "decodeInt64 _ = None"

fun decodeTime :: "json \<Rightarrow> Time option" where
  "decodeTime (JTime i) = Some (Time i None)"
| "decodeTime JNull = Some 0"
| "decodeTime _ = None"

fun decodeList :: "(json \<Rightarrow> 'a option) \<Rightarrow> json \<Rightarrow> 'a list option" where
  "decodeList decode (JArray xs) = those (map decode xs)"
| "decodeList decode JNull = Some []"
| "decodeList decode _ = None"

fun decodeSubscriber :: "(int \<Rightarrow> string) \<Rightarrow> json \<Rightarrow> Subscriber option" where
  "decodeSubscriber formatTime (JObject fs) =
     (case (field decodeInt64 0 fs ''id'', field (decodeString formatTime) [] fs ''username'') of
        (Some i, Some u) \<Rightarrow> Some \<lparr>ID = i, Username = u\<rparr>
      | _ \<Rightarrow> None)"
| "decodeSubscriber formatTime JNull = Some \<lparr>ID = 0, Username = []\<rparr>"
| "decodeSubscriber formatTime _ = None"

fun decodeTag :: "(int \<Rightarrow> string) \<Rightarrow> json \<Rightarrow> Tag option" where
  "decodeTag formatTime (JObject fs) =
     (case (field (decodeString formatTime) [] fs ''name'',
            field decodeInt64 0 fs ''creator_id'',
            field (decodeString formatTime) [] fs ''creator_name'',
            field (decodeString formatTime) [] fs ''description'',
            field (decodeList (decodeSubscriber formatTime)) [] fs ''subscribers'',
            field decodeTime 0 fs ''created_at'') of
        (Some n, Some c, Some cn, Some d, Some subs, Some t) \<Rightarrow>
          Some \<lparr>Name = n, CreatorID = c, CreatorName = cn, Description = d,
                Subscribers = subs, CreatedAt = t\<rparr>
      | _ \<Rightarrow> None)"
| "decodeTag formatTime JNull =
     Some \<lparr>Name = [], CreatorID = 0, CreatorName = [], Description = [],
           Subscribers = [], CreatedAt = 0\<rparr>"
| "decodeTag formatTime _ = None"

fun decodeData :: "(int \<Rightarrow> string) \<Rightarrow> json \<Rightarrow> Data \<Rightarrow> Data option" where
  "decodeData formatTime (JObject fs) d =
     (case member fs ''tags'' of
        None \<Rightarrow> Some d
      | Some v \<Rightarrow>
          (case decodeList (decodeTag formatTime) v of
             None \<Rightarrow> None
           | Some tags \<Rightarrow> Some (d\<lparr>Tags := tags\<rparr>)))"
| "decodeData formatTime JNull d = Some d"
| "decodeData formatTime _ d = None"

fun decodeOldTag :: "(int \<Rightarrow> string) \<Rightarrow> json \<Rightarrow> OldTag option" where
  "decodeOldTag formatTime (JObject fs) =
     (case (field (decodeString formatTime) [] fs ''name'',
            field decodeInt64 0 fs ''creator_id'',
            field (decodeString formatTime) [] fs ''creator_name'',
            field (decodeString formatTime) [] fs ''description'',
            field (decodeList decodeInt64) [] fs ''subscribers'',
            field decodeTime 0 fs ''created_at'') of
        (Some n, Some c, Some cn, Some d, Some subs, Some t) \<Rightarrow>
          Some \<lparr>old_Name = n, old_CreatorID = c, old_CreatorName = cn, old_Description = d,
                old_Subscribers = subs, old_CreatedAt = t\<rparr>
      | _ \<Rightarrow> None)"
| "decodeOldTag formatTime JNull =
     Some \<lparr>old_Name = [], old_CreatorID = 0, old_CreatorName = [], old_Description = [],
           old_Subscribers = [], old_CreatedAt = 0\<rparr>"
| "decodeOldTag formatTime _ = None"

fun decodeOldData :: "(int \<Rightarrow> string) \<Rightarrow> json \<Rightarrow> OldData option" where
  "decodeOldData formatTime (JObject fs) =
     (case field (decodeList (decodeOldTag formatTime)) [] fs ''tags'' of
        None \<Rightarrow> None
      | Some tags \<Rightarrow> Some \<lparr>old_Tags = tags\<rparr>)"
| "decodeOldData formatTime JNull = Some \<lparr>old_Tags = []\<rparr>"
| "decodeOldData formatTime _ = None"

text \<open>What the old program wrote: \<^verbatim>\<open>json.MarshalIndent\<close> on the old types.\<close>

definition encodeOldTag :: "OldTag \<Rightarrow> json" where
  "encodeOldTag oldTag =
     JObject [(''name'', JString (old_Name oldTag)),
              (''creator_id'', JNumber (sint (old_CreatorID oldTag))),
              (''creator_name'', JString (old_CreatorName oldTag)),
              (''description'', JString (old_Description oldTag)),
              (''subscribers'', JArray (map (\<lambda>subID. JNumber (sint subID)) (old_Subscribers oldTag))),
              (''created_at'', JTime (wall (old_CreatedAt oldTag)))]"

definition encodeOldData :: "OldData \<Rightarrow> json" where
  "encodeOldData oldData = JObject [(''tags'', JArray (map encodeOldTag (old_Tags oldData)))]"

text \<open>
  The library with this JSON: \<^verbatim>\<open>MarshalIndent\<close> returns no error; \<^verbatim>\<open>Unmarshal\<close> of a
  text that is not JSON returns an error before it stores anything; when it returns an
  error later, \<open>partial\<close> is what it has stored in \<^verbatim>\<open>data\<close> by then. \<open>formatTime\<close> is
  the text of an instant, for a time text that is stored in a string.
\<close>

definition go_json :: "(string \<Rightarrow> string) \<Rightarrow> (int \<Rightarrow> string) \<Rightarrow> (json \<Rightarrow> Data \<Rightarrow> Data) \<Rightarrow> contents lib" where
  "go_json lower formatTime partial =
     \<lparr>toLower = lower,
      marshalIndent = (\<lambda>d. Some (Valid (encodeData d))),
      unmarshalData = (\<lambda>c d. case c of
                                Invalid \<Rightarrow> (False, d)
                              | Valid j \<Rightarrow>
                                  (case decodeData formatTime j d of
                                     None \<Rightarrow> (False, partial j d)
                                   | Some d' \<Rightarrow> (True, d'))),
      unmarshalOldData = (\<lambda>c. case c of
                                 Invalid \<Rightarrow> None
                               | Valid j \<Rightarrow> decodeOldData formatTime j)\<rparr>"

section \<open>Example values\<close>

text \<open>
  The concrete instances below use a library that lower-cases the ASCII letters, as
  \<^verbatim>\<open>strings.ToLower\<close> does on ASCII text, and a JSON codec that is a table of the
  documents that occur in the examples (written without indentation and without the
  fields that play no role).
\<close>

definition lower_ascii :: "string \<Rightarrow> string" where
  "lower_ascii s =
     map (\<lambda>c. case map_of (zip ''ABCDEFGHIJKLMNOPQRSTUVWXYZ'' ''abcdefghijklmnopqrstuvwxyz'') c of
                 None \<Rightarrow> c
               | Some l \<Rightarrow> l) s"

definition lunch_tag :: Tag where
  "lunch_tag = \<lparr>Name = ''lunch'', CreatorID = 42, CreatorName = ''alice'', Description = [],
     Subscribers = [\<lparr>ID = 7, Username = ''bob''\<rparr>], CreatedAt = 0\<rparr>"

definition idle_tag :: Tag where
  "idle_tag = \<lparr>Name = ''idle'', CreatorID = 42, CreatorName = ''alice'', Description = ''unused'',
     Subscribers = [], CreatedAt = 0\<rparr>"

text \<open>The legacy document of the spec's scenario, what it holds, and the tag it becomes.\<close>

definition legacy_doc :: string where
  \<open>legacy_doc = ''{"tags":[{"name":"x","creator_id":1,"subscribers":[5,6]}]}''\<close>

definition legacy_data :: OldData where
  "legacy_data = \<lparr>old_Tags = [\<lparr>old_Name = ''x'', old_CreatorID = 1, old_CreatorName = [],
     old_Description = [], old_Subscribers = [5, 6], old_CreatedAt = 0\<rparr>]\<rparr>"

definition x_tag :: Tag where
  "x_tag = \<lparr>Name = ''x'', CreatorID = 1, CreatorName = [], Description = [],
     Subscribers = [\<lparr>ID = 5, Username = ''User5''\<rparr>, \<lparr>ID = 6, Username = ''User6''\<rparr>],
     CreatedAt = 0\<rparr>"

definition example_docs :: "(string \<times> Data) list" where
  \<open>example_docs =
     [(''{"tags":[]}'', \<lparr>Tags = []\<rparr>),
      (''{"tags":[lunch]}'', \<lparr>Tags = [lunch_tag]\<rparr>),
      (''{"tags":[x]}'', \<lparr>Tags = [x_tag]\<rparr>)]\<close>

definition example_lib :: "string lib" where
  "example_lib =
     \<lparr>toLower = lower_ascii,
      marshalIndent = map_of (map (\<lambda>(bytes, d). (d, bytes)) example_docs),
      unmarshalData = (\<lambda>bytes d. case map_of example_docs bytes of
                                     None \<Rightarrow> (False, d)
                                   | Some d' \<Rightarrow> (True, d')),
      unmarshalOldData = map_of [(legacy_doc, legacy_data)]\<rparr>"

definition alice :: Sender where
  "alice = \<lparr>sender_ID = 42, sender_Username = ''alice''\<rparr>"

definition bob :: Sender where
  "bob = \<lparr>sender_ID = 7, sender_Username = ''bob''\<rparr>"

definition empty_world :: "string World" where
  "empty_world = \<lparr>data = \<lparr>Tags = []\<rparr>, dataFile = None, can_read = True, can_write = True\<rparr>"

definition lunch_world :: "string World" where
  "lunch_world = \<lparr>data = \<lparr>Tags = [lunch_tag]\<rparr>, dataFile = None,
     can_read = True, can_write = True\<rparr>"

definition two_tags :: "string World" where
  "two_tags = \<lparr>data = \<lparr>Tags = [idle_tag, lunch_tag]\<rparr>, dataFile = None,
     can_read = True, can_write = True\<rparr>"

definition x_lunch_world :: "string World" where
  "x_lunch_world = \<lparr>data = \<lparr>Tags = [x_tag, lunch_tag]\<rparr>, dataFile = None,
     can_read = True, can_write = True\<rparr>"



text \<open>A state whose file cannot be written.\<close>

definition readonly_world :: "string World" where
  \<open>readonly_world = \<lparr>data = \<lparr>Tags = [lunch_tag]\<rparr>, dataFile = Some ''{"tags":[lunch]}'',
     can_read = True, can_write = False\<rparr>\<close>

text \<open>
  The values of the examples of loading: the library with the JSON above (the decimal
  digits stand for the text of an instant, and a failed decoding leaves \<^verbatim>\<open>data\<close> as it
  was), a time as \<^verbatim>\<open>time.Now\<close> returns it, the state after a \<^verbatim>\<open>/ct\<close> in a new
  repository and the state of a new process that has loaded the file saved by it; the
  legacy document of the spec's scenario, a document of a wrong type, and a file that is
  not JSON.
\<close>

definition example_json :: "contents lib" where
  "example_json = go_json lower_ascii format_d (\<lambda>j d. d)"

definition just_now :: Time where
  "just_now = Time 1700000000 (Some 12345)"

definition json_world :: "contents World" where
  "json_world = \<lparr>data = \<lparr>Tags = []\<rparr>, dataFile = None, can_read = True, can_write = True\<rparr>"

definition after_create :: "contents World" where
  "after_create = snd (handle_ct example_json alice just_now [''/ct'', ''lunch''] json_world)"

definition after_restart :: "contents World" where
  "after_restart =
     snd (loadData example_json True ''token''
            ((snd (saveData example_json after_create))\<lparr>data := \<lparr>Tags = []\<rparr>\<rparr>))"

definition legacy_json :: json where
  "legacy_json =
     JObject [(''tags'', JArray [JObject [(''name'', JString ''x''),
                                         (''creator_id'', JNumber 1),
                                         (''subscribers'', JArray [JNumber 5, JNumber 6])]])]"

definition legacy_world :: "contents World" where
  "legacy_world = \<lparr>data = \<lparr>Tags = []\<rparr>, dataFile = Some (Valid legacy_json),
     can_read = True, can_write = True\<rparr>"

definition garbage_world :: "contents World" where
  "garbage_world = \<lparr>data = \<lparr>Tags = []\<rparr>, dataFile = Some Invalid,
     can_read = True, can_write = True\<rparr>"

definition wrong_world :: "contents World" where
  "wrong_world = \<lparr>data = \<lparr>Tags = []\<rparr>, dataFile = Some (Valid (JObject [(''tags'', JString ''none'')])),
     can_read = True, can_write = True\<rparr>"

section \<open>The loops as list functions\<close>

lemma cleanEmptyTags_loop_filter:
  "cleanEmptyTags_loop newTags tags = newTags @ filter (\<lambda>tag. length (Subscribers tag) > 0) tags"
  by (induction tags arbitrary: newTags) simp_all

lemma removeTag_loop_filter:
  "removeTag_loop L name newTags tags =
     newTags @ filter (\<lambda>t. toLower L (Name t) \<noteq> toLower L name) tags"
  by (induction tags arbitrary: newTags) simp_all

lemma userTags_loop_count:
  "userTags_loop sid n tags = n + length (filter (\<lambda>tag. CreatorID tag = sid) tags)"
  by (induction tags arbitrary: n) simp_all

lemma subscribed_iff: "subscribed sid subs \<longleftrightarrow> sid \<in> ID ` set subs"
  by (induction subs) auto

lemma isAdmin_loop_iff: "isAdmin_loop sid ids \<longleftrightarrow> sid \<in> set ids"
  by (induction ids) auto

lemma mentions_loop_filter:
  "mentions_loop mentions subs =
     mentions @ map (\<lambda>sub. CHR ''@'' # Username sub)
       (filter (\<lambda>sub. Username sub \<noteq> [] \<and> Username sub \<noteq> placeholder (ID sub)) subs)"
  by (induction subs arbitrary: mentions) simp_all

subsection \<open>\<^verbatim>\<open>findTag\<close>\<close>

lemma findTag_loop_None:
  "findTag_loop L name i tags = None \<longleftrightarrow> (\<forall>tag \<in> set tags. toLower L (Name tag) \<noteq> name)"
  by (induction tags arbitrary: i) simp_all

lemma findTag_loop_Some:
  "findTag_loop L name i tags = Some j \<Longrightarrow>
     i \<le> j \<and> j - i < length tags \<and> toLower L (Name (tags ! (j - i))) = name \<and>
     (\<forall>k < j - i. toLower L (Name (tags ! k)) \<noteq> name)"
proof (induction tags arbitrary: i)
  case Nil
  then show ?case by simp
next
  case (Cons tag rest)
  show ?case
  proof (cases "toLower L (Name tag) = name")
    case True
    with Cons.prems show ?thesis by simp
  next
    case False
    with Cons.prems have r: "findTag_loop L name (Suc i) rest = Some j" by simp
    from Cons.IH [OF r] have ih: "Suc i \<le> j" "j - Suc i < length rest"
      "toLower L (Name (rest ! (j - Suc i))) = name"
      "\<forall>k < j - Suc i. toLower L (Name (rest ! k)) \<noteq> name" by simp_all
    from ih(1) have e: "j - i = Suc (j - Suc i)" by simp
    have "\<forall>k < j - i. toLower L (Name ((tag # rest) ! k)) \<noteq> name"
    proof (intro allI impI)
      fix k assume "k < j - i"
      then show "toLower L (Name ((tag # rest) ! k)) \<noteq> name"
        using False ih(4) e by (cases k) simp_all
    qed
    with ih e show ?thesis by simp
  qed
qed

lemma findTag_Some:
  "findTag L d name = Some i \<Longrightarrow>
     i < length (Tags d) \<and> toLower L (Name (Tags d ! i)) = toLower L name \<and>
     (\<forall>k < i. toLower L (Name (Tags d ! k)) \<noteq> toLower L name)"
  unfolding findTag_def using findTag_loop_Some [of L "toLower L name" 0 "Tags d" i] by simp

lemma findTag_None:
  "findTag L d name = None \<longleftrightarrow> (\<forall>tag \<in> set (Tags d). toLower L (Name tag) \<noteq> toLower L name)"
  unfolding findTag_def by (rule findTag_loop_None)

lemma findTag_loop_append:
  "findTag_loop L name i (xs @ ys) =
     (case findTag_loop L name i xs of
        Some j \<Rightarrow> Some j
      | None \<Rightarrow> findTag_loop L name (i + length xs) ys)"
  by (induction xs arbitrary: i) (simp_all split: option.splits)

subsection \<open>\<^verbatim>\<open>saveData\<close> and \<^verbatim>\<open>cleanEmptyTags\<close>\<close>

lemma Data_update_Tags: "(d :: Data)\<lparr>Tags := ts\<rparr> = \<lparr>Tags = ts\<rparr>"
  by (cases d) simp

lemma data_saveData: "data (snd (saveData L w)) = data w"
  by (simp add: saveData_def split: option.splits)

lemma dataFile_saveData:
  "dataFile (snd (saveData L w)) =
     (case marshalIndent L (data w) of
        None \<Rightarrow> dataFile w
      | Some bytes \<Rightarrow> if can_write w then Some bytes else dataFile w)"
  by (simp add: saveData_def split: option.splits)

lemma data_cleanEmptyTags:
  "Tags (data (cleanEmptyTags L w)) = filter (\<lambda>tag. length (Subscribers tag) > 0) (Tags (data w))"
  by (simp add: cleanEmptyTags_def saveData_def cleanEmptyTags_loop_filter split: option.splits)

lemma dataFile_cleanEmptyTags:
  "dataFile (cleanEmptyTags L w) =
     (case marshalIndent L \<lparr>Tags = filter (\<lambda>tag. length (Subscribers tag) > 0) (Tags (data w))\<rparr> of
        None \<Rightarrow> dataFile w
      | Some bytes \<Rightarrow> if can_write w then Some bytes else dataFile w)"
  by (simp add: cleanEmptyTags_def saveData_def cleanEmptyTags_loop_filter Data_update_Tags
      split: option.splits)

lemma snd_handle_lt: "snd (handle_lt L w) = cleanEmptyTags L w"
  by (simp add: handle_lt_def Let_def)

lemma snd_handle_stats: "snd (handle_stats L w) = cleanEmptyTags L w"
  by (simp add: handle_stats_def Let_def)

lemma snd_handle_stats_main: "snd (handle_stats_main L w) = cleanEmptyTags L w"
  by (simp add: handle_stats_main_def Let_def)

subsection \<open>The handlers, loop by loop\<close>

lemma findTag_Some_ex:
  "findTag L d name = Some i \<Longrightarrow> \<exists>tag \<in> set (Tags d). toLower L (Name tag) = toLower L name"
  using findTag_None [of L d name] by auto

lemma findTag_snoc_new:
  assumes "\<forall>tag \<in> set tags. toLower L (Name tag) \<noteq> toLower L q"
      and "toLower L (Name t) = toLower L q"
  shows "findTag L \<lparr>Tags = tags @ [t]\<rparr> q = Some (length tags)"
proof -
  from assms(1) have "findTag_loop L (toLower L q) 0 tags = None"
    by (simp add: findTag_loop_None)
  with assms(2) show ?thesis
    by (simp add: findTag_def findTag_loop_append)
qed

lemma findTag_loop_names:
  "map Name tags = map Name tags' \<Longrightarrow> findTag_loop L name k tags = findTag_loop L name k tags'"
proof (induction tags arbitrary: tags' k)
  case Nil
  then show ?case by simp
next
  case (Cons t ts)
  then obtain t' ts' where e: "tags' = t' # ts'" "Name t = Name t'" "map Name ts = map Name ts'"
    by (cases tags') auto
  with Cons.IH [of ts' "Suc k"] show ?case by simp
qed

lemma findTag_names:
  "map Name (Tags d) = map Name (Tags d') \<Longrightarrow> findTag L d name = findTag L d' name"
  unfolding findTag_def by (rule findTag_loop_names)

lemma map_Name_update:
  "i < length tags \<Longrightarrow> Name t = Name (tags ! i) \<Longrightarrow> map Name (tags[i := t]) = map Name tags"
  by (simp add: map_update list_update_same_conv)

lemma handle_ct_unfold:
  "handle_ct L s now (cmd # name # rest) w =
     (if length name > 50 then (Sent NameTooLong, w)
      else if \<exists>tag \<in> set (Tags (data w)). toLower L (Name tag) = toLower L name
        then (Sent TagExists, w)
      else if 10 \<le> length (filter (\<lambda>tag. CreatorID tag = sender_ID s) (Tags (data w)))
        then (Sent LimitReached, w)
      else if 100 < length (join_space rest) then (Sent DescTooLong, w)
      else (Sent (Created (sender_Username s) name (join_space rest)),
            snd (saveData L (w\<lparr>data := \<lparr>Tags = Tags (data w) @
              [\<lparr>Name = name, CreatorID = sender_ID s, CreatorName = sender_Username s,
                Description = join_space rest, Subscribers = [], CreatedAt = now\<rparr>]\<rparr>\<rparr>))))"
proof (cases "findTag L (data w) name")
  case None
  then have "\<forall>tag \<in> set (Tags (data w)). toLower L (Name tag) \<noteq> toLower L name"
    by (simp add: findTag_None)
  with None show ?thesis
    by (cases rest) (simp_all add: handle_ct_def Let_def userTags_loop_count Data_update_Tags)
next
  case (Some i)
  from findTag_Some_ex [OF Some] Some show ?thesis
    by (simp add: handle_ct_def Let_def)
qed

lemma handle_ct_main_unfold:
  "handle_ct_main L s now (cmd # name # rest) w =
     (if \<exists>tag \<in> set (Tags (data w)). toLower L (Name tag) = toLower L name
        then (Sent TagExists, w)
      else (Sent (Created (sender_Username s) name (join_space rest)),
            snd (saveData L (w\<lparr>data := \<lparr>Tags = Tags (data w) @
              [\<lparr>Name = name, CreatorID = sender_ID s, CreatorName = sender_Username s,
                Description = join_space rest, Subscribers = [], CreatedAt = now\<rparr>]\<rparr>\<rparr>))))"
proof (cases "findTag L (data w) name")
  case None
  then have "\<forall>tag \<in> set (Tags (data w)). toLower L (Name tag) \<noteq> toLower L name"
    by (simp add: findTag_None)
  with None show ?thesis
    by (cases rest) (simp_all add: handle_ct_main_def Let_def Data_update_Tags)
next
  case (Some i)
  from findTag_Some_ex [OF Some] Some show ?thesis
    by (simp add: handle_ct_main_def Let_def)
qed

lemma handle_st_unfold:
  "handle_st L s (cmd # name # rest) w =
     (case findTag L (data w) name of
        None \<Rightarrow> (Sent TagNotFound, w)
      | Some i \<Rightarrow>
          if sender_ID s \<in> ID ` set (Subscribers (Tags (data w) ! i)) then (Sent AlreadySubscribed, w)
          else (Sent (Subscribed (Name (Tags (data w) ! i))),
                snd (saveData L (w\<lparr>data := \<lparr>Tags = (Tags (data w))[i :=
                  (Tags (data w) ! i)\<lparr>Subscribers := Subscribers (Tags (data w) ! i) @
                    [\<lparr>ID = sender_ID s,
                      Username = (if sender_Username s = [] then placeholder (sender_ID s)
                                  else sender_Username s)\<rparr>]\<rparr>]\<rparr>\<rparr>))))"
  by (simp add: handle_st_def Let_def subscribed_iff Data_update_Tags split: option.splits)

lemma handle_dt_unfold:
  "handle_dt L s admins (cmd # name # rest) w =
     (case findTag L (data w) name of
        None \<Rightarrow> (Sent TagNotFound, w)
      | Some i \<Rightarrow>
          if CreatorID (Tags (data w) ! i) \<noteq> sender_ID s
             \<and> \<not> (case admins of None \<Rightarrow> False | Some ids \<Rightarrow> sender_ID s \<in> set ids)
          then (Sent DtForbidden, w)
          else (Sent (Deleted (Name (Tags (data w) ! i))),
                snd (saveData L (w\<lparr>data := \<lparr>Tags =
                  filter (\<lambda>t. toLower L (Name t) \<noteq> toLower L name) (Tags (data w))\<rparr>\<rparr>))))"
proof (cases "findTag L (data w) name")
  case None
  then show ?thesis by (simp add: handle_dt_def)
next
  case (Some i)
  from findTag_Some [OF Some]
  have "toLower L (Name (Tags (data w) ! i)) = toLower L name" by simp
  with Some show ?thesis
    by (simp add: handle_dt_def Let_def removeTag_loop_filter isAdmin_loop_iff Data_update_Tags
        split: option.splits)
qed

lemma handle_dt_main_eq:
  "handle_dt_main L s words w = handle_dt L s None words w"
  by (simp add: handle_dt_main_def handle_dt_def Let_def split: list.splits option.splits)

lemma count_distinct_ID:
  "distinct (map ID subs) \<Longrightarrow> sid \<in> ID ` set subs \<Longrightarrow>
   length (filter (\<lambda>sub. ID sub = sid) subs) = 1"
proof (induction subs)
  case Nil
  then show ?case by simp
next
  case (Cons a subs)
  show ?case
  proof (cases "ID a = sid")
    case True
    with Cons.prems have "sid \<notin> ID ` set subs" by auto
    then have "\<forall>sub \<in> set subs. ID sub \<noteq> sid" by force
    then have "filter (\<lambda>sub. ID sub = sid) subs = []"
      by (simp add: filter_empty_conv)
    with True show ?thesis by simp
  next
    case False
    with Cons show ?thesis by auto
  qed
qed

lemma created_found:
  assumes fresh: "\<forall>tag \<in> set (Tags (data w)). toLower L (Name tag) \<noteq> toLower L name"
      and q: "toLower L q = toLower L name"
      and t: "Name t = name"
  shows "findTag L (data (snd (saveData L (w\<lparr>data := \<lparr>Tags = Tags (data w) @ [t]\<rparr>\<rparr>)))) q
           = Some (length (Tags (data w)))
       \<and> Tags (data (snd (saveData L (w\<lparr>data := \<lparr>Tags = Tags (data w) @ [t]\<rparr>\<rparr>))))
           ! length (Tags (data w)) = t"
proof -
  from fresh q have "\<forall>tag \<in> set (Tags (data w)). toLower L (Name tag) \<noteq> toLower L q" by simp
  moreover from q t have "toLower L (Name t) = toLower L q" by simp
  ultimately have "findTag L \<lparr>Tags = Tags (data w) @ [t]\<rparr> q = Some (length (Tags (data w)))"
    by (rule findTag_snoc_new)
  then show ?thesis by (simp add: data_saveData)
qed

subsection \<open>The loops of \<^verbatim>\<open>OnText\<close>\<close>

lemma onText_loop_concat:
  "onText_loop L d mentions words =
     mentions @ concat (map (\<lambda>word.
        case word of
          [] \<Rightarrow> []
        | c # tagName \<Rightarrow>
            if c = CHR ''#'' then
              (case findTag L d tagName of
                 None \<Rightarrow> []
               | Some i \<Rightarrow>
                   map (\<lambda>sub. CHR ''@'' # Username sub)
                     (filter (\<lambda>sub. Username sub \<noteq> [] \<and> Username sub \<noteq> placeholder (ID sub))
                        (Subscribers (Tags d ! i))))
            else []) words)"
  by (induction words arbitrary: mentions)
     (simp_all add: mentions_loop_filter split: list.splits option.splits)

lemma onText_main_loop_concat:
  "onText_main_loop L d responses matches =
     responses @ concat (map (\<lambda>tagName.
        case findTag L d tagName of
          None \<Rightarrow> []
        | Some i \<Rightarrow>
            (let mentions = map (\<lambda>sub. CHR ''@'' # Username sub)
                     (filter (\<lambda>sub. Username sub \<noteq> [] \<and> Username sub \<noteq> placeholder (ID sub))
                        (Subscribers (Tags d ! i)))
             in if mentions = [] then [] else [(mentions, tagName)])) matches)"
  by (induction matches arbitrary: responses)
     (simp_all add: mentions_loop_filter Let_def split: option.splits)

lemma onText_guard:
  "\<not> list_ex (\<lambda>word. CHR ''#'' \<in> set word) words \<Longrightarrow> onText_loop L d [] words = []"
  unfolding onText_loop_concat
  by (induction words) (auto split: list.splits)

lemma onText_loop_candidates:
  "onText_loop L d mentions words =
     mentions @ concat (map (\<lambda>tagName.
          case findTag L d tagName of
            None \<Rightarrow> []
          | Some i \<Rightarrow> map (\<lambda>sub. CHR ''@'' # Username sub)
                     (filter (\<lambda>sub. Username sub \<noteq> [] \<and> Username sub \<noteq> placeholder (ID sub))
                        (Subscribers (Tags d ! i))))
        (concat (map (\<lambda>word. case word of [] \<Rightarrow> []
                                | c # tagName \<Rightarrow> if c = CHR ''#'' then [tagName] else []) words)))"
  unfolding onText_loop_concat
  by (induction words) (simp_all split: list.splits)

subsection \<open>What a handler saves\<close>

lemma saved_after_saveData:
  "marshalIndent L (data (snd (saveData L w))) = Some bytes \<Longrightarrow> can_write w \<Longrightarrow>
   dataFile (snd (saveData L w)) = Some bytes"
  by (simp add: saveData_def split: option.splits)

lemma findTag_loop_marshal:
  "findTag_loop (L\<lparr>marshalIndent := m\<rparr>) name i tags = findTag_loop L name i tags"
  by (induction tags arbitrary: i) simp_all

lemma findTag_marshal: "findTag (L\<lparr>marshalIndent := m\<rparr>) d name = findTag L d name"
  by (simp add: findTag_def findTag_loop_marshal)

lemma removeTag_loop_marshal:
  "removeTag_loop (L\<lparr>marshalIndent := m\<rparr>) name newTags tags = removeTag_loop L name newTags tags"
  by (induction tags arbitrary: newTags) simp_all

lemma handle_ct_save_fails:
  "fst (handle_ct (L\<lparr>marshalIndent := m\<rparr>) s now words (w\<lparr>can_write := b\<rparr>))
     = fst (handle_ct L s now words w)
   \<and> data (snd (handle_ct (L\<lparr>marshalIndent := m\<rparr>) s now words (w\<lparr>can_write := b\<rparr>)))
     = data (snd (handle_ct L s now words w))"
  by (simp add: handle_ct_def Let_def data_saveData findTag_marshal split: list.splits)

lemma handle_ct_main_save_fails:
  "fst (handle_ct_main (L\<lparr>marshalIndent := m\<rparr>) s now words (w\<lparr>can_write := b\<rparr>))
     = fst (handle_ct_main L s now words w)
   \<and> data (snd (handle_ct_main (L\<lparr>marshalIndent := m\<rparr>) s now words (w\<lparr>can_write := b\<rparr>)))
     = data (snd (handle_ct_main L s now words w))"
  by (simp add: handle_ct_main_def Let_def data_saveData findTag_marshal split: list.splits)

lemma handle_st_save_fails:
  "fst (handle_st (L\<lparr>marshalIndent := m\<rparr>) s words (w\<lparr>can_write := b\<rparr>))
     = fst (handle_st L s words w)
   \<and> data (snd (handle_st (L\<lparr>marshalIndent := m\<rparr>) s words (w\<lparr>can_write := b\<rparr>)))
     = data (snd (handle_st L s words w))"
  by (simp add: handle_st_def Let_def data_saveData findTag_marshal
      split: list.splits option.splits)

lemma handle_dt_save_fails:
  "fst (handle_dt (L\<lparr>marshalIndent := m\<rparr>) s admins words (w\<lparr>can_write := b\<rparr>))
     = fst (handle_dt L s admins words w)
   \<and> data (snd (handle_dt (L\<lparr>marshalIndent := m\<rparr>) s admins words (w\<lparr>can_write := b\<rparr>)))
     = data (snd (handle_dt L s admins words w))"
  by (simp add: handle_dt_def Let_def data_saveData findTag_marshal removeTag_loop_marshal
      split: list.splits option.splits)

lemma cleanEmptyTags_save_fails:
  "data (cleanEmptyTags (L\<lparr>marshalIndent := m\<rparr>) (w\<lparr>can_write := b\<rparr>)) = data (cleanEmptyTags L w)"
  by (simp add: cleanEmptyTags_def data_saveData)


lemma handle_ct_saved:
  "fst (handle_ct L s now words w) = Sent (Created u n d) \<Longrightarrow>
   marshalIndent L (data (snd (handle_ct L s now words w))) = Some bytes \<Longrightarrow> can_write w \<Longrightarrow>
   dataFile (snd (handle_ct L s now words w)) = Some bytes"
  by (auto simp add: handle_ct_def Let_def saved_after_saveData split: list.splits if_splits)

lemma handle_ct_main_saved:
  "fst (handle_ct_main L s now words w) = Sent (Created u n d) \<Longrightarrow>
   marshalIndent L (data (snd (handle_ct_main L s now words w))) = Some bytes \<Longrightarrow> can_write w \<Longrightarrow>
   dataFile (snd (handle_ct_main L s now words w)) = Some bytes"
  by (auto simp add: handle_ct_main_def Let_def saved_after_saveData split: list.splits if_splits)

lemma handle_st_saved:
  "fst (handle_st L s words w) = Sent (Subscribed n) \<Longrightarrow>
   marshalIndent L (data (snd (handle_st L s words w))) = Some bytes \<Longrightarrow> can_write w \<Longrightarrow>
   dataFile (snd (handle_st L s words w)) = Some bytes"
  by (auto simp add: handle_st_def Let_def saved_after_saveData
      split: list.splits option.splits if_splits)

lemma handle_dt_saved:
  "fst (handle_dt L s admins words w) = Sent (Deleted n) \<Longrightarrow>
   marshalIndent L (data (snd (handle_dt L s admins words w))) = Some bytes \<Longrightarrow> can_write w \<Longrightarrow>
   dataFile (snd (handle_dt L s admins words w)) = Some bytes"
  by (auto simp add: handle_dt_def Let_def saved_after_saveData
      split: list.splits option.splits if_splits)

lemma cleanEmptyTags_saved:
  "marshalIndent L (data (cleanEmptyTags L w)) = Some bytes \<Longrightarrow> can_write w \<Longrightarrow>
   dataFile (cleanEmptyTags L w) = Some bytes"
  by (simp add: cleanEmptyTags_def saved_after_saveData)

subsection \<open>The branches of \<^verbatim>\<open>loadData\<close>\<close>

lemma loadData_current:
  "dotenv_ok \<Longrightarrow> token \<noteq> [] \<Longrightarrow> dataFile w = Some bytes \<Longrightarrow> can_read w \<Longrightarrow>
   unmarshalData L bytes (data w) = (True, d) \<Longrightarrow>
   loadData L dotenv_ok token w = (Returned None, w\<lparr>data := d\<rparr>)"
  by (simp add: loadData_def)

lemma loadData_legacy:
  "dotenv_ok \<Longrightarrow> token \<noteq> [] \<Longrightarrow> dataFile w = Some bytes \<Longrightarrow> can_read w \<Longrightarrow>
   unmarshalData L bytes (data w) = (False, d) \<Longrightarrow> unmarshalOldData L bytes = Some old \<Longrightarrow>
   marshalIndent L \<lparr>Tags = map convertTag (old_Tags old)\<rparr> = Some bytes' \<Longrightarrow> can_write w \<Longrightarrow>
   loadData L dotenv_ok token w =
     (Returned None, w\<lparr>data := \<lparr>Tags = map convertTag (old_Tags old)\<rparr>, dataFile := Some bytes'\<rparr>)"
  by (simp add: loadData_def saveData_def Data_update_Tags)

lemma loadData_corrupt:
  "dotenv_ok \<Longrightarrow> token \<noteq> [] \<Longrightarrow> dataFile w = Some bytes \<Longrightarrow> can_read w \<Longrightarrow>
   unmarshalData L bytes (data w) = (False, d) \<Longrightarrow> unmarshalOldData L bytes = None \<Longrightarrow>
   loadData L dotenv_ok token w = (Returned (Some FailedUnmarshalOldAndNew), w\<lparr>data := d\<rparr>)"
  by (simp add: loadData_def)

subsection \<open>Encoding and decoding\<close>

lemma those_map_decode:
  "(\<And>x. decode (enc x) = Some (f x)) \<Longrightarrow> those (map (decode \<circ> enc) xs) = Some (map f xs)"
  by (induction xs) simp_all

lemma sint_int64_range:
  "- 9223372036854775808 \<le> sint (x :: int64)" "sint (x :: int64) < 9223372036854775808"
  using sint_ge [of x] sint_lt [of x] by simp_all

lemma decode_encodeSubscriber: "decodeSubscriber ft (encodeSubscriber sub) = Some sub"
  by (simp add: encodeSubscriber_def field_def member_def sint_int64_range)

lemma decode_encodeTag: "decodeTag ft (encodeTag tag) = Some (tag\<lparr>CreatedAt := Time (wall (CreatedAt tag)) None\<rparr>)"
  by (cases tag)
     (simp add: encodeTag_def field_def member_def sint_int64_range Let_def
        those_map_decode [where f = "\<lambda>x. x"] decode_encodeSubscriber)

lemma decode_encodeData:
  "decodeData ft (encodeData d) d0 = Some \<lparr>Tags = map (\<lambda>tag. tag\<lparr>CreatedAt := Time (wall (CreatedAt tag)) None\<rparr>) (Tags d)\<rparr>"
  by (simp add: encodeData_def member_def those_map_decode [where f = "\<lambda>tag. tag\<lparr>CreatedAt := Time (wall (CreatedAt tag)) None\<rparr>"]
      decode_encodeTag Data_update_Tags)

lemma those_None: "None \<in> set xs \<Longrightarrow> those xs = None"
  by (induction xs) (auto split: option.splits)

lemma decodeTag_encodeOldTag:
  "decodeTag ft (encodeOldTag oldTag) =
     (if old_Subscribers oldTag = []
      then Some \<lparr>Name = old_Name oldTag, CreatorID = old_CreatorID oldTag,
                 CreatorName = old_CreatorName oldTag, Description = old_Description oldTag,
                 Subscribers = [], CreatedAt = Time (wall (old_CreatedAt oldTag)) None\<rparr>
      else None)"
proof (cases "old_Subscribers oldTag")
  case Nil
  then show ?thesis
    by (simp add: encodeOldTag_def field_def member_def sint_int64_range)
next
  case (Cons a as)
  then have "those (map (decodeSubscriber ft) (map (\<lambda>subID. JNumber (sint subID)) (old_Subscribers oldTag))) = None"
    by simp
  with Cons show ?thesis
    by (simp add: encodeOldTag_def field_def member_def sint_int64_range comp_def)
qed

lemma decodeData_encodeOldData_None:
  assumes "\<exists>oldTag \<in> set (old_Tags old). old_Subscribers oldTag \<noteq> []"
  shows "decodeData ft (encodeOldData old) d = None"
proof -
  from assms obtain t where t: "t \<in> set (old_Tags old)" "old_Subscribers t \<noteq> []" by blast
  then have "decodeTag ft (encodeOldTag t) = None" by (simp add: decodeTag_encodeOldTag)
  with t(1) have "None \<in> set (map (decodeTag ft) (map encodeOldTag (old_Tags old)))"
    by force
  then have "those (map (decodeTag ft) (map encodeOldTag (old_Tags old))) = None"
    by (rule those_None)
  then show ?thesis by (simp add: encodeOldData_def member_def comp_def)
qed

lemma decodeOldTag_encodeOldTag:
  "decodeOldTag ft (encodeOldTag oldTag)
     = Some (oldTag\<lparr>old_CreatedAt := Time (wall (old_CreatedAt oldTag)) None\<rparr>)"
  by (cases oldTag)
     (simp add: encodeOldTag_def field_def member_def sint_int64_range
        those_map_decode [where f = "\<lambda>x. x" and enc = "\<lambda>subID. JNumber (sint subID)" and decode = decodeInt64])

lemma decodeOldData_encodeOldData:
  "decodeOldData ft (encodeOldData old)
     = Some \<lparr>old_Tags = map (\<lambda>oldTag. oldTag\<lparr>old_CreatedAt := Time (wall (old_CreatedAt oldTag)) None\<rparr>)
                           (old_Tags old)\<rparr>"
  by (simp add: encodeOldData_def field_def member_def decodeOldTag_encodeOldTag
      those_map_decode [where f = "\<lambda>oldTag. oldTag\<lparr>old_CreatedAt := Time (wall (old_CreatedAt oldTag)) None\<rparr>"])

subsection \<open>Saving and loading with the JSON library\<close>

lemma saveData_go_json:
  "can_write w \<Longrightarrow>
   saveData (go_json lower ft partial) w = (None, w\<lparr>dataFile := Some (Valid (encodeData (data w)))\<rparr>)"
  by (simp add: saveData_def go_json_def)

lemma unmarshal_encodeData:
  "unmarshalData (go_json lower ft partial) (Valid (encodeData d)) d0
     = (True, \<lparr>Tags = map (\<lambda>tag. tag\<lparr>CreatedAt := Time (wall (CreatedAt tag)) None\<rparr>) (Tags d)\<rparr>)"
  by (simp add: go_json_def decode_encodeData)

lemma strip_id_iff:
  "(map (\<lambda>tag. tag\<lparr>CreatedAt := Time (wall (CreatedAt tag)) None\<rparr>) (tags :: Tag list) = tags)
     = (\<forall>tag \<in> set tags. monotonic (CreatedAt tag) = None)"
proof -
  have "(tag\<lparr>CreatedAt := Time (wall (CreatedAt tag)) None\<rparr> = tag) = (monotonic (CreatedAt tag) = None)"
    for tag :: Tag
    by (cases tag; cases "CreatedAt tag") auto
  then show ?thesis by (induction tags) simp_all
qed

lemma loadData_invalid:
  "dotenv_ok \<Longrightarrow> token \<noteq> [] \<Longrightarrow> dataFile v = Some Invalid \<Longrightarrow> can_read v \<Longrightarrow>
   loadData (go_json lower ft partial) dotenv_ok token v
     = (Returned (Some FailedUnmarshalOldAndNew), v)"
  by (simp add: loadData_def go_json_def)

lemma loadData_old_program:
  assumes "dotenv_ok" "token \<noteq> []" "dataFile w = Some (Valid (encodeOldData old))"
    "can_read w" "can_write w"
    "\<exists>oldTag \<in> set (old_Tags old). old_Subscribers oldTag \<noteq> []"
  shows "loadData (go_json lower ft partial) dotenv_ok token w =
     (Returned None,
      w\<lparr>data := \<lparr>Tags = map (\<lambda>oldTag.
              \<lparr>Name = old_Name oldTag, CreatorID = old_CreatorID oldTag,
               CreatorName = old_CreatorName oldTag, Description = old_Description oldTag,
               Subscribers = map (\<lambda>subID. \<lparr>ID = subID, Username = ''User'' @ format_d (sint subID)\<rparr>)
                               (old_Subscribers oldTag),
               CreatedAt = Time (wall (old_CreatedAt oldTag)) None\<rparr>) (old_Tags old)\<rparr>,
        dataFile := Some (Valid (encodeData \<lparr>Tags = map (\<lambda>oldTag.
              \<lparr>Name = old_Name oldTag, CreatorID = old_CreatorID oldTag,
               CreatorName = old_CreatorName oldTag, Description = old_Description oldTag,
               Subscribers = map (\<lambda>subID. \<lparr>ID = subID, Username = ''User'' @ format_d (sint subID)\<rparr>)
                               (old_Subscribers oldTag),
               CreatedAt = Time (wall (old_CreatedAt oldTag)) None\<rparr>) (old_Tags old)\<rparr>))\<rparr>)"
proof -
  let ?L = "go_json lower ft partial"
  let ?c = "Valid (encodeOldData old)"
  let ?old = "\<lparr>old_Tags = map (\<lambda>oldTag. oldTag\<lparr>old_CreatedAt := Time (wall (old_CreatedAt oldTag)) None\<rparr>)
                           (old_Tags old)\<rparr>"
  have n: "unmarshalData ?L ?c (data w) = (False, partial (encodeOldData old) (data w))"
    by (simp add: go_json_def decodeData_encodeOldData_None [OF assms(6)])
  have o: "unmarshalOldData ?L ?c = Some ?old"
    by (simp add: go_json_def decodeOldData_encodeOldData)
  have m: "marshalIndent ?L \<lparr>Tags = map convertTag (old_Tags ?old)\<rparr>
      = Some (Valid (encodeData \<lparr>Tags = map convertTag (old_Tags ?old)\<rparr>))"
    by (simp add: go_json_def)
  have e: "map convertTag (old_Tags ?old) = map (\<lambda>oldTag.
              \<lparr>Name = old_Name oldTag, CreatorID = old_CreatorID oldTag,
               CreatorName = old_CreatorName oldTag, Description = old_Description oldTag,
               Subscribers = map (\<lambda>subID. \<lparr>ID = subID, Username = ''User'' @ format_d (sint subID)\<rparr>)
                               (old_Subscribers oldTag),
               CreatedAt = Time (wall (old_CreatedAt oldTag)) None\<rparr>) (old_Tags old)"
    by (simp add: convertTag_def convertSubscriber_def placeholder_def comp_def)
  from loadData_legacy [OF assms(1,2,3,4) n o m assms(5)] show ?thesis
    by (simp only: e)
qed


lemma after_create_eq:
  "after_create = \<lparr>data = \<lparr>Tags = [\<lparr>Name = ''lunch'', CreatorID = 42, CreatorName = ''alice'',
       Description = [], Subscribers = [], CreatedAt = Time 1700000000 (Some 12345)\<rparr>]\<rparr>,
     dataFile = Some (Valid (JObject [(''tags'', JArray [JObject [(''name'', JString ''lunch''),
       (''creator_id'', JNumber 42), (''creator_name'', JString ''alice''),
       (''description'', JString []), (''subscribers'', JArray []),
       (''created_at'', JTime 1700000000)]])])),
     can_read = True, can_write = True\<rparr>"
  by (simp add: after_create_def handle_ct_def findTag_def Let_def saveData_def json_world_def
      alice_def just_now_def example_json_def go_json_def encodeData_def encodeTag_def)

section \<open>Pruning and listing\<close>

text \<open>
  Claim C10. \<^verbatim>\<open>cleanEmptyTags\<close> (the spec's Prune) removes exactly the tags whose
  subscriber list is empty: the tags afterwards are the tags before, filtered by
  "has a subscriber". A filtered list holds the very elements of the original, so every
  retained tag keeps all its fields, and keeps them in their order.
\<close>

theorem cleanEmptyTags_keeps_subscribed:
  "Tags (data (cleanEmptyTags L w)) =
     filter (\<lambda>tag. length (Subscribers tag) > 0) (Tags (data w))"
  by (rule data_cleanEmptyTags)

text \<open>
  Claim C9. The handler of \<^verbatim>\<open>/mt\<close> (the spec's MyTags) leaves the whole state as it
  was, in memory and on disk: in particular the tags, those without subscribers
  included, are the same before and after.
\<close>

theorem handle_mt_changes_nothing: "snd (handle_mt sender w) = w"
  by (simp add: handle_mt_def)

text \<open>
  Claim C7. The handlers of \<^verbatim>\<open>/lt\<close> and \<^verbatim>\<open>/stats\<close> (the spec's List and Stats) first
  remove every tag without subscribers, then reply with one entry for each tag that is
  left, in storage order (the full variant replies that there are no tags when none is
  left). No tag without subscribers remains, and when the marshalled state can be
  written the file holds it after the call.
\<close>

theorem handle_lt_stats_prune_first:
  "(let kept = filter (\<lambda>tag. length (Subscribers tag) > 0) (Tags (data w)) in
      Tags (data (snd (handle_lt L w))) = kept
    \<and> fst (handle_lt L w) =
        (if kept = [] then Sent NoTags
         else Sent (TagList (map (\<lambda>tag. (Name tag, length (Subscribers tag), Description tag)) kept)))
    \<and> Tags (data (snd (handle_stats L w))) = kept
    \<and> fst (handle_stats L w) =
        (if kept = [] then Sent NoTags
         else Sent (Stats (map (\<lambda>tag. (Name tag, length (Subscribers tag))) kept)))
    \<and> Tags (data (snd (handle_stats_main L w))) = kept
    \<and> fst (handle_stats_main L w) =
        Sent (Stats (map (\<lambda>tag. (Name tag, length (Subscribers tag))) kept))
    \<and> (\<forall>tag \<in> set kept. length (Subscribers tag) > 0)
    \<and> (\<forall>bytes. marshalIndent L \<lparr>Tags = kept\<rparr> = Some bytes \<and> can_write w \<longrightarrow>
          dataFile (snd (handle_lt L w)) = Some bytes
        \<and> dataFile (snd (handle_stats L w)) = Some bytes
        \<and> dataFile (snd (handle_stats_main L w)) = Some bytes))"
  unfolding Let_def snd_handle_lt snd_handle_stats snd_handle_stats_main
proof (intro conjI allI impI)
  show "\<forall>tag\<in>set (filter (\<lambda>tag. length (Subscribers tag) > 0) (Tags (data w))).
          length (Subscribers tag) > 0"
    by simp
qed (simp_all add: handle_lt_def handle_stats_def handle_stats_main_def Let_def
       data_cleanEmptyTags dataFile_cleanEmptyTags)

theorem handle_lt_stats_prune_first_witness:
  \<open>length (Subscribers lunch_tag) > 0
   \<and> marshalIndent example_lib \<lparr>Tags = [lunch_tag]\<rparr> = Some ''{"tags":[lunch]}''
   \<and> can_write two_tags
   \<and> Tags (data (snd (handle_lt example_lib two_tags))) = [lunch_tag]
   \<and> fst (handle_lt example_lib two_tags) = Sent (TagList [(''lunch'', 1, [])])
   \<and> fst (handle_stats example_lib two_tags) = Sent (Stats [(''lunch'', 1)])
   \<and> fst (handle_stats_main example_lib two_tags) = Sent (Stats [(''lunch'', 1)])
   \<and> dataFile (snd (handle_lt example_lib two_tags)) = Some ''{"tags":[lunch]}''
   \<and> dataFile (snd (handle_stats example_lib two_tags)) = Some ''{"tags":[lunch]}''
   \<and> dataFile (snd (handle_stats_main example_lib two_tags)) = Some ''{"tags":[lunch]}''\<close>
  using handle_lt_stats_prune_first [of two_tags example_lib]
  by (simp add: Let_def two_tags_def lunch_tag_def idle_tag_def example_lib_def example_docs_def)

section \<open>Deleting\<close>

text \<open>
  Claim C5. The handler of \<^verbatim>\<open>/dt\<close> (the spec's Delete), given a name: when no tag has
  that name up to letter case it replies that the tag was not found; when the sender is
  neither the creator of the tag found nor an administrator of the chat it replies that
  deleting is forbidden; in both cases the state is unchanged. Otherwise it removes every
  tag whose lower-cased name is the lower-cased argument, so that looking the name up
  afterwards, in any letter case, finds nothing. The handler of \<^verbatim>\<open>main.go\<close> is the same
  handler without a list of administrators: nobody is privileged there.
\<close>

theorem handle_dt_cases:
  "(let tags = Tags (data w);
        privileged = (case admins of None \<Rightarrow> False | Some ids \<Rightarrow> sender_ID s \<in> set ids);
        r = handle_dt L s admins (cmd # name # rest) w
    in ((\<forall>tag \<in> set tags. toLower L (Name tag) \<noteq> toLower L name) \<longrightarrow> r = (Sent TagNotFound, w))
     \<and> (\<forall>i. findTag L (data w) name = Some i \<longrightarrow>
           (CreatorID (tags ! i) \<noteq> sender_ID s \<and> \<not> privileged \<longrightarrow> r = (Sent DtForbidden, w))
         \<and> (CreatorID (tags ! i) = sender_ID s \<or> privileged \<longrightarrow>
               fst r = Sent (Deleted (Name (tags ! i)))
             \<and> Tags (data (snd r)) = filter (\<lambda>tag. toLower L (Name tag) \<noteq> toLower L name) tags
             \<and> (\<forall>q. toLower L q = toLower L name \<longrightarrow> findTag L (data (snd r)) q = None)))
     \<and> handle_dt_main L s (cmd # name # rest) w = handle_dt L s None (cmd # name # rest) w)"
proof -
  have notfound: "handle_dt L s admins (cmd # name # rest) w = (Sent TagNotFound, w)"
    if "\<forall>tag \<in> set (Tags (data w)). toLower L (Name tag) \<noteq> toLower L name"
  proof -
    from that have "findTag L (data w) name = None" by (simp add: findTag_None)
    then show ?thesis by (simp add: handle_dt_unfold)
  qed
  have forbidden: "handle_dt L s admins (cmd # name # rest) w = (Sent DtForbidden, w)"
    if "findTag L (data w) name = Some i" "CreatorID (Tags (data w) ! i) \<noteq> sender_ID s"
       "\<not> (case admins of None \<Rightarrow> False | Some ids \<Rightarrow> sender_ID s \<in> set ids)" for i
    using that by (simp add: handle_dt_unfold)
  have deleted: "fst (handle_dt L s admins (cmd # name # rest) w) = Sent (Deleted (Name (Tags (data w) ! i)))
      \<and> Tags (data (snd (handle_dt L s admins (cmd # name # rest) w))) =
          filter (\<lambda>tag. toLower L (Name tag) \<noteq> toLower L name) (Tags (data w))
      \<and> (\<forall>q. toLower L q = toLower L name \<longrightarrow>
            findTag L (data (snd (handle_dt L s admins (cmd # name # rest) w))) q = None)"
    if "findTag L (data w) name = Some i"
       "CreatorID (Tags (data w) ! i) = sender_ID s
        \<or> (case admins of None \<Rightarrow> False | Some ids \<Rightarrow> sender_ID s \<in> set ids)" for i
  proof -
    from that have r: "handle_dt L s admins (cmd # name # rest) w =
        (Sent (Deleted (Name (Tags (data w) ! i))),
         snd (saveData L (w\<lparr>data := \<lparr>Tags =
           filter (\<lambda>t. toLower L (Name t) \<noteq> toLower L name) (Tags (data w))\<rparr>\<rparr>)))"
      by (auto simp add: handle_dt_unfold)
    show ?thesis
      unfolding r by (simp add: data_saveData findTag_None)
  qed
  show ?thesis
    unfolding Let_def using notfound forbidden deleted handle_dt_main_eq by blast
qed

theorem handle_dt_cases_witness:
  "handle_dt example_lib bob None [''/dt'', ''LUNCH''] lunch_world = (Sent DtForbidden, lunch_world)
   \<and> fst (handle_dt example_lib alice None [''/dt'', ''LUNCH''] lunch_world) = Sent (Deleted ''lunch'')
   \<and> Tags (data (snd (handle_dt example_lib alice None [''/dt'', ''LUNCH''] lunch_world))) = []
   \<and> findTag example_lib (data (snd (handle_dt example_lib alice None [''/dt'', ''LUNCH''] lunch_world))) ''Lunch'' = None
   \<and> fst (handle_dt example_lib bob (Some [7]) [''/dt'', ''LUNCH''] lunch_world) = Sent (Deleted ''lunch'')
   \<and> handle_dt example_lib alice None [''/dt'', ''dinner''] lunch_world = (Sent TagNotFound, lunch_world)"
proof -
  have f: "findTag example_lib (data lunch_world) ''LUNCH'' = Some 0"
    by (simp add: findTag_def lunch_world_def lunch_tag_def example_lib_def lower_ascii_def)
  have l: "toLower example_lib ''Lunch'' = toLower example_lib ''LUNCH''"
    by (simp add: example_lib_def lower_ascii_def)
  have n: "\<forall>tag \<in> set (Tags (data lunch_world)). toLower example_lib (Name tag) \<noteq> toLower example_lib ''dinner''"
    by (simp add: lunch_world_def lunch_tag_def example_lib_def lower_ascii_def)
  have c: "CreatorID (Tags (data lunch_world) ! 0) = 42"
    by (simp add: lunch_world_def lunch_tag_def)
  have nm: "Name (Tags (data lunch_world) ! 0) = ''lunch''"
    by (simp add: lunch_world_def lunch_tag_def)
  have fl: "filter (\<lambda>tag. toLower example_lib (Name tag) \<noteq> toLower example_lib ''LUNCH'')
      (Tags (data lunch_world)) = []"
    by (simp add: lunch_world_def lunch_tag_def example_lib_def lower_ascii_def)
  show ?thesis
    using handle_dt_cases [where w = lunch_world and admins = None and s = bob and L = example_lib
        and cmd = "''/dt''" and name = "''LUNCH''" and rest = "[]"]
      handle_dt_cases [where w = lunch_world and admins = None and s = alice and L = example_lib
        and cmd = "''/dt''" and name = "''LUNCH''" and rest = "[]"]
      handle_dt_cases [where w = lunch_world and admins = "Some [7]" and s = bob and L = example_lib
        and cmd = "''/dt''" and name = "''LUNCH''" and rest = "[]"]
      handle_dt_cases [where w = lunch_world and admins = None and s = alice and L = example_lib
        and cmd = "''/dt''" and name = "''dinner''" and rest = "[]"]
      f l n
    by (simp add: Let_def c nm fl alice_def bob_def)
qed

section \<open>Subscribing\<close>

text \<open>
  Claim C4. Subscribing twice: on a tag that exists and whose subscriber list has no two
  entries with the same id (the invariant of the data model), after the handler of
  \<^verbatim>\<open>/st\<close> has run once for a sender, running it again for the same sender and name
  replies that the sender is already subscribed and changes nothing, the tag is found at
  the same place, it holds exactly one subscriber entry with the sender's id, and its
  subscriber list still has no duplicate id.
\<close>

theorem subscribe_twice:
  "findTag L (data w) name = Some i \<longrightarrow> distinct (map ID (Subscribers (Tags (data w) ! i))) \<longrightarrow>
     (let w1 = snd (handle_st L s (cmd # name # rest) w) in
        (fst (handle_st L s (cmd # name # rest) w) = Sent AlreadySubscribed
         \<or> fst (handle_st L s (cmd # name # rest) w) = Sent (Subscribed (Name (Tags (data w) ! i))))
      \<and> handle_st L s (cmd # name # rest) w1 = (Sent AlreadySubscribed, w1)
      \<and> findTag L (data w1) name = Some i
      \<and> length (filter (\<lambda>sub. ID sub = sender_ID s) (Subscribers (Tags (data w1) ! i))) = 1
      \<and> distinct (map ID (Subscribers (Tags (data w1) ! i))))"
proof (intro impI)
  assume f: "findTag L (data w) name = Some i"
    and d: "distinct (map ID (Subscribers (Tags (data w) ! i)))"
  let ?tags = "Tags (data w)"
  let ?tag = "?tags ! i"
  from findTag_Some [OF f] have i: "i < length ?tags" by simp
  show "let w1 = snd (handle_st L s (cmd # name # rest) w) in
        (fst (handle_st L s (cmd # name # rest) w) = Sent AlreadySubscribed
         \<or> fst (handle_st L s (cmd # name # rest) w) = Sent (Subscribed (Name (Tags (data w) ! i))))
      \<and> handle_st L s (cmd # name # rest) w1 = (Sent AlreadySubscribed, w1)
      \<and> findTag L (data w1) name = Some i
      \<and> length (filter (\<lambda>sub. ID sub = sender_ID s) (Subscribers (Tags (data w1) ! i))) = 1
      \<and> distinct (map ID (Subscribers (Tags (data w1) ! i)))"
  proof (cases "sender_ID s \<in> ID ` set (Subscribers ?tag)")
    case True
    with f have r: "handle_st L s (cmd # name # rest) w = (Sent AlreadySubscribed, w)"
      by (simp add: handle_st_unfold)
    from True d have "length (filter (\<lambda>sub. ID sub = sender_ID s) (Subscribers ?tag)) = 1"
      by (simp add: count_distinct_ID)
    with r f d show ?thesis by (simp add: Let_def)
  next
    case False
    define new where "new = \<lparr>ID = sender_ID s,
        Username = (if sender_Username s = [] then placeholder (sender_ID s)
                    else sender_Username s)\<rparr>"
    define tag' where "tag' = ?tag\<lparr>Subscribers := Subscribers ?tag @ [new]\<rparr>"
    define w1 where "w1 = snd (saveData L (w\<lparr>data := \<lparr>Tags = ?tags[i := tag']\<rparr>\<rparr>))"
    from False f have r: "handle_st L s (cmd # name # rest) w = (Sent (Subscribed (Name ?tag)), w1)"
      by (simp add: handle_st_unfold w1_def tag'_def new_def)
    have dw1: "data w1 = \<lparr>Tags = ?tags[i := tag']\<rparr>"
      by (simp add: w1_def data_saveData)
    from i have "map Name (Tags (data w1)) = map Name (Tags (data w))"
      by (simp add: dw1 map_Name_update tag'_def)
    then have "findTag L (data w1) name = findTag L (data w) name"
      by (rule findTag_names)
    with f have f1: "findTag L (data w1) name = Some i" by simp
    from i have t1: "Tags (data w1) ! i = tag'" by (simp add: dw1)
    from False have "\<forall>sub \<in> set (Subscribers ?tag). ID sub \<noteq> sender_ID s"
      by force
    then have "filter (\<lambda>sub. ID sub = sender_ID s) (Subscribers ?tag) = []"
      by (simp add: filter_empty_conv)
    then have c: "length (filter (\<lambda>sub. ID sub = sender_ID s) (Subscribers tag')) = 1"
      by (simp add: tag'_def new_def)
    from False d have d1: "distinct (map ID (Subscribers tag'))"
      by (simp add: tag'_def new_def)
    have s1: "sender_ID s \<in> ID ` set (Subscribers tag')"
      by (simp add: tag'_def new_def)
    have r2: "handle_st L s (cmd # name # rest) w1 = (Sent AlreadySubscribed, w1)"
      using s1 by (simp add: handle_st_unfold f1 t1)
    show ?thesis
      using r r2 f1 c d1 by (simp add: Let_def t1)
  qed
qed


theorem subscribe_twice_witness:
  "findTag example_lib (data lunch_world) ''lunch'' = Some 0
   \<and> distinct (map ID (Subscribers (Tags (data lunch_world) ! 0)))
   \<and> fst (handle_st example_lib alice [''/st'', ''lunch''] lunch_world) = Sent (Subscribed ''lunch'')
   \<and> handle_st example_lib alice [''/st'', ''lunch'']
        (snd (handle_st example_lib alice [''/st'', ''lunch''] lunch_world))
       = (Sent AlreadySubscribed, snd (handle_st example_lib alice [''/st'', ''lunch''] lunch_world))
   \<and> length (filter (\<lambda>sub. ID sub = sender_ID alice)
        (Subscribers (Tags (data (snd (handle_st example_lib alice [''/st'', ''lunch''] lunch_world))) ! 0)))
       = 1"
proof -
  have f: "findTag example_lib (data lunch_world) ''lunch'' = Some 0"
    by (simp add: findTag_def lunch_world_def lunch_tag_def example_lib_def lower_ascii_def)
  have d: "distinct (map ID (Subscribers (Tags (data lunch_world) ! 0)))"
    by (simp add: lunch_world_def lunch_tag_def)
  have n: "sender_ID alice \<notin> ID ` set (Subscribers (Tags (data lunch_world) ! 0))"
    "Name (Tags (data lunch_world) ! 0) = ''lunch''"
    by (simp_all add: alice_def lunch_world_def lunch_tag_def)
  have r: "fst (handle_st example_lib alice [''/st'', ''lunch''] lunch_world) = Sent (Subscribed ''lunch'')"
    by (simp add: handle_st_unfold f n)
  from subscribe_twice [where L = example_lib and w = lunch_world and name = "''lunch''" and i = 0
      and s = alice and cmd = "''/st''" and rest = "[]"] f d
  have "handle_st example_lib alice [''/st'', ''lunch'']
        (snd (handle_st example_lib alice [''/st'', ''lunch''] lunch_world))
       = (Sent AlreadySubscribed, snd (handle_st example_lib alice [''/st'', ''lunch''] lunch_world))
   \<and> length (filter (\<lambda>sub. ID sub = sender_ID alice)
        (Subscribers (Tags (data (snd (handle_st example_lib alice [''/st'', ''lunch''] lunch_world))) ! 0)))
       = 1"
    by (simp add: Let_def)
  with f d r show ?thesis by simp
qed

section \<open>Creating and finding\<close>

text \<open>
  Claim C6. After the handler of \<^verbatim>\<open>/ct\<close> has created a tag, \<^verbatim>\<open>findTag\<close> with any
  string that lower-cases to the same as the name returns the tag just created, with the
  fields the handler gave it; this holds in both variants, and inputs within the bounds
  (name of at most 50 bytes and not yet used, fewer than 10 tags of the sender,
  description of at most 100 bytes) do create the tag. \<^verbatim>\<open>findTag\<close> returns \<^verbatim>\<open>nil\<close>
  exactly when no stored name lower-cases to the same as the argument, and a tag it
  returns does.
\<close>

theorem create_then_find:
  "(let created = \<lparr>Name = name, CreatorID = sender_ID s, CreatorName = sender_Username s,
                    Description = join_space rest, Subscribers = [], CreatedAt = now\<rparr>;
        r = handle_ct L s now (cmd # name # rest) w;
        r_main = handle_ct_main L s now (cmd # name # rest) w
    in (\<forall>u n d q. fst r = Sent (Created u n d) \<and> toLower L q = toLower L name \<longrightarrow>
          findTag L (data (snd r)) q = Some (length (Tags (data w)))
        \<and> Tags (data (snd r)) ! length (Tags (data w)) = created)
     \<and> (\<forall>u n d q. fst r_main = Sent (Created u n d) \<and> toLower L q = toLower L name \<longrightarrow>
          findTag L (data (snd r_main)) q = Some (length (Tags (data w)))
        \<and> Tags (data (snd r_main)) ! length (Tags (data w)) = created)
     \<and> (length name \<le> 50
        \<and> (\<forall>tag \<in> set (Tags (data w)). toLower L (Name tag) \<noteq> toLower L name)
        \<and> length (filter (\<lambda>tag. CreatorID tag = sender_ID s) (Tags (data w))) < 10
        \<and> length (join_space rest) \<le> 100 \<longrightarrow>
          fst r = Sent (Created (sender_Username s) name (join_space rest)))
     \<and> ((\<forall>tag \<in> set (Tags (data w)). toLower L (Name tag) \<noteq> toLower L name) \<longrightarrow>
          fst r_main = Sent (Created (sender_Username s) name (join_space rest)))
     \<and> (\<forall>d q. (findTag L d q = None) =
                (\<forall>tag \<in> set (Tags d). toLower L (Name tag) \<noteq> toLower L q))
     \<and> (\<forall>d q i. findTag L d q = Some i \<longrightarrow>
           i < length (Tags d) \<and> toLower L (Name (Tags d ! i)) = toLower L q))"
proof -
  let ?created = "\<lparr>Name = name, CreatorID = sender_ID s, CreatorName = sender_Username s,
                    Description = join_space rest, Subscribers = [], CreatedAt = now\<rparr>"
  let ?w1 = "snd (saveData L (w\<lparr>data := \<lparr>Tags = Tags (data w) @ [?created]\<rparr>\<rparr>))"
  have full: "findTag L (data (snd (handle_ct L s now (cmd # name # rest) w))) q
                = Some (length (Tags (data w)))
      \<and> Tags (data (snd (handle_ct L s now (cmd # name # rest) w))) ! length (Tags (data w))
                = ?created"
    if "fst (handle_ct L s now (cmd # name # rest) w) = Sent (Created u n d)"
       "toLower L q = toLower L name" for u n d q
  proof -
    from that(1) have fresh: "\<forall>tag \<in> set (Tags (data w)). toLower L (Name tag) \<noteq> toLower L name"
      and r: "snd (handle_ct L s now (cmd # name # rest) w) = ?w1"
      by (auto simp add: handle_ct_unfold split: if_splits)
    show ?thesis
      unfolding r using created_found [OF fresh that(2), of ?created] by simp
  qed
  have main: "findTag L (data (snd (handle_ct_main L s now (cmd # name # rest) w))) q
                = Some (length (Tags (data w)))
      \<and> Tags (data (snd (handle_ct_main L s now (cmd # name # rest) w))) ! length (Tags (data w))
                = ?created"
    if "fst (handle_ct_main L s now (cmd # name # rest) w) = Sent (Created u n d)"
       "toLower L q = toLower L name" for u n d q
  proof -
    from that(1) have fresh: "\<forall>tag \<in> set (Tags (data w)). toLower L (Name tag) \<noteq> toLower L name"
      and r: "snd (handle_ct_main L s now (cmd # name # rest) w) = ?w1"
      by (auto simp add: handle_ct_main_unfold split: if_splits)
    show ?thesis
      unfolding r using created_found [OF fresh that(2), of ?created] by simp
  qed
  have ok: "fst (handle_ct L s now (cmd # name # rest) w)
              = Sent (Created (sender_Username s) name (join_space rest))"
    if "length name \<le> 50"
       "\<forall>tag \<in> set (Tags (data w)). toLower L (Name tag) \<noteq> toLower L name"
       "length (filter (\<lambda>tag. CreatorID tag = sender_ID s) (Tags (data w))) < 10"
       "length (join_space rest) \<le> 100"
    using that by (simp add: handle_ct_unfold)
  have ok_main: "fst (handle_ct_main L s now (cmd # name # rest) w)
              = Sent (Created (sender_Username s) name (join_space rest))"
    if "\<forall>tag \<in> set (Tags (data w)). toLower L (Name tag) \<noteq> toLower L name"
    using that by (simp add: handle_ct_main_unfold)
  have some: "i < length (Tags d) \<and> toLower L (Name (Tags d ! i)) = toLower L q"
    if "findTag L d q = Some i" for d q i
    using findTag_Some [OF that] by simp
  show ?thesis
    unfolding Let_def
    apply (intro conjI allI impI)
    subgoal for u n d q using full [of u n d q] by blast
    subgoal for u n d q using full [of u n d q] by blast
    subgoal for u n d q using main [of u n d q] by blast
    subgoal for u n d q using main [of u n d q] by blast
    subgoal using ok by blast
    subgoal using ok_main by blast
    subgoal for d q by (rule findTag_None)
    subgoal for d q i using some by blast
    subgoal for d q i using some by blast
    done
qed


theorem create_then_find_witness:
  "fst (handle_ct example_lib alice 0 [''/ct'', ''lunch''] empty_world) = Sent (Created ''alice'' ''lunch'' [])
   \<and> findTag example_lib (data (snd (handle_ct example_lib alice 0 [''/ct'', ''lunch''] empty_world))) ''LUNCH''
       = Some 0
   \<and> Tags (data (snd (handle_ct example_lib alice 0 [''/ct'', ''lunch''] empty_world))) ! 0
       = \<lparr>Name = ''lunch'', CreatorID = 42, CreatorName = ''alice'', Description = [],
          Subscribers = [], CreatedAt = 0\<rparr>
   \<and> fst (handle_ct_main example_lib alice 0 [''/ct'', ''lunch''] empty_world)
       = Sent (Created ''alice'' ''lunch'' [])
   \<and> findTag example_lib (data (snd (handle_ct_main example_lib alice 0 [''/ct'', ''lunch''] empty_world)))
        ''LUNCH'' = Some 0"
proof -
  note t = create_then_find [where L = example_lib and s = alice and now = 0 and cmd = "''/ct''"
      and name = "''lunch''" and rest = "[]" and w = empty_world, unfolded Let_def]
  have l: "toLower example_lib ''LUNCH'' = toLower example_lib ''lunch''"
    by (simp add: example_lib_def lower_ascii_def)
  have e: "Tags (data empty_world) = []" by (simp add: empty_world_def)
  from t have ok: "fst (handle_ct example_lib alice 0 [''/ct'', ''lunch''] empty_world)
      = Sent (Created ''alice'' ''lunch'' [])"
    by (simp add: e alice_def)
  from t have ok_main: "fst (handle_ct_main example_lib alice 0 [''/ct'', ''lunch''] empty_world)
      = Sent (Created ''alice'' ''lunch'' [])"
    by (simp add: e alice_def)
  from t ok l have "findTag example_lib
        (data (snd (handle_ct example_lib alice 0 [''/ct'', ''lunch''] empty_world))) ''LUNCH''
       = Some (length (Tags (data empty_world)))
     \<and> Tags (data (snd (handle_ct example_lib alice 0 [''/ct'', ''lunch''] empty_world)))
         ! length (Tags (data empty_world))
       = \<lparr>Name = ''lunch'', CreatorID = sender_ID alice, CreatorName = sender_Username alice,
          Description = join_space [], Subscribers = [], CreatedAt = 0\<rparr>"
    by blast
  moreover from t ok_main l have "findTag example_lib
        (data (snd (handle_ct_main example_lib alice 0 [''/ct'', ''lunch''] empty_world))) ''LUNCH''
       = Some (length (Tags (data empty_world)))"
    by blast
  ultimately show ?thesis
    using ok ok_main by (simp add: e alice_def)
qed

section \<open>Resolving mentions\<close>

text \<open>
  Claim C8. The handler of text messages goes through the candidate names in the order
  of the text, each occurrence on its own. For a candidate that names a tag (up to letter
  case) it collects, in the order of the subscriber list, the usernames that are not
  empty and are not the placeholder of the subscriber's id. In \<^verbatim>\<open>main.go\<close> the
  candidates are the matches of the regular expression, and a tag that yields no username
  contributes no response; in the full variant the candidates are the fields that start
  with \<^verbatim>\<open>#\<close>, without it, and the usernames of all tags form one list, to which such a
  tag adds nothing. Nothing is sent when nothing was collected, and the state is unchanged.
\<close>

theorem mentions_in_order:
  "(let mentionable = (\<lambda>tag. map (\<lambda>sub. CHR ''@'' # Username sub)
          (filter (\<lambda>sub. Username sub \<noteq> [] \<and> Username sub \<noteq> placeholder (ID sub))
             (Subscribers tag)));
        responses = concat (map (\<lambda>tagName.
          case findTag L (data w) tagName of
            None \<Rightarrow> []
          | Some i \<Rightarrow> if mentionable (Tags (data w) ! i) = [] then []
                      else [(mentionable (Tags (data w) ! i), tagName)]) candidates);
        mentions = concat (map (\<lambda>tagName.
          case findTag L (data w) tagName of
            None \<Rightarrow> []
          | Some i \<Rightarrow> mentionable (Tags (data w) ! i))
          (concat (map (\<lambda>word. case word of [] \<Rightarrow> []
                                | c # tagName \<Rightarrow> if c = CHR ''#'' then [tagName] else []) words)))
    in onText_main L candidates w = (if responses = [] then Nil else Sent (Responses responses), w)
     \<and> onText L words w = (if mentions = [] then Nil else Sent (Mentions mentions), w))"
proof -
  have m: "onText_main_loop L (data w) [] candidates =
      concat (map (\<lambda>tagName.
          case findTag L (data w) tagName of
            None \<Rightarrow> []
          | Some i \<Rightarrow>
              if map (\<lambda>sub. CHR ''@'' # Username sub)
                     (filter (\<lambda>sub. Username sub \<noteq> [] \<and> Username sub \<noteq> placeholder (ID sub))
                        (Subscribers (Tags (data w) ! i))) = [] then []
              else [(map (\<lambda>sub. CHR ''@'' # Username sub)
                     (filter (\<lambda>sub. Username sub \<noteq> [] \<and> Username sub \<noteq> placeholder (ID sub))
                        (Subscribers (Tags (data w) ! i))), tagName)]) candidates)"
    unfolding onText_main_loop_concat Let_def by simp
  have l: "onText_loop L (data w) [] words =
      concat (map (\<lambda>tagName.
          case findTag L (data w) tagName of
            None \<Rightarrow> []
          | Some i \<Rightarrow> map (\<lambda>sub. CHR ''@'' # Username sub)
                     (filter (\<lambda>sub. Username sub \<noteq> [] \<and> Username sub \<noteq> placeholder (ID sub))
                        (Subscribers (Tags (data w) ! i))))
        (concat (map (\<lambda>word. case word of [] \<Rightarrow> []
                                | c # tagName \<Rightarrow> if c = CHR ''#'' then [tagName] else []) words)))"
    unfolding onText_loop_candidates by simp
  have t: "onText L words w =
      (if onText_loop L (data w) [] words = [] then Nil
       else Sent (Mentions (onText_loop L (data w) [] words)), w)"
    using onText_guard [of words L "data w"]
    by (auto simp add: onText_def Let_def)
  have u: "onText_main L candidates w =
      (if onText_main_loop L (data w) [] candidates = [] then Nil
       else Sent (Responses (onText_main_loop L (data w) [] candidates)), w)"
    by (simp add: onText_main_def Let_def)
  show ?thesis
    unfolding Let_def u t m l by (intro conjI refl)
qed

theorem mentions_in_order_witness:
  "onText_main example_lib [''x'', ''LUNCH'', ''nobody'', ''lunch''] x_lunch_world
     = (Sent (Responses [([''@bob''], ''LUNCH''), ([''@bob''], ''lunch'')]), x_lunch_world)
   \<and> onText example_lib [''hello'', ''#x'', ''#LUNCH'', ''#nobody'', ''#lunch''] x_lunch_world
     = (Sent (Mentions [''@bob'', ''@bob'']), x_lunch_world)
   \<and> onText_main example_lib [''x''] x_lunch_world = (Nil, x_lunch_world)
   \<and> onText example_lib [''#x''] x_lunch_world = (Nil, x_lunch_world)"
proof -
  have f: "findTag example_lib (data x_lunch_world) ''x'' = Some 0"
    "findTag example_lib (data x_lunch_world) ''LUNCH'' = Some 1"
    "findTag example_lib (data x_lunch_world) ''lunch'' = Some 1"
    "findTag example_lib (data x_lunch_world) ''nobody'' = None"
    by (simp_all add: findTag_def x_lunch_world_def x_tag_def lunch_tag_def example_lib_def
        lower_ascii_def)
  have t: "Tags (data x_lunch_world) ! 0 = x_tag" "Tags (data x_lunch_world) ! Suc 0 = lunch_tag"
    by (simp_all add: x_lunch_world_def)
  have p: "placeholder 5 = ''User5''" "placeholder 6 = ''User6''" "placeholder 7 = ''User7''"
    by (simp_all add: placeholder_def format_d_def digits.simps digit_def)
  have mx: "filter (\<lambda>sub. Username sub \<noteq> [] \<and> Username sub \<noteq> placeholder (ID sub))
      (Subscribers x_tag) = []"
    by (simp add: x_tag_def p)
  have ml: "filter (\<lambda>sub. Username sub \<noteq> [] \<and> Username sub \<noteq> placeholder (ID sub))
      (Subscribers lunch_tag) = [\<lparr>ID = 7, Username = ''bob''\<rparr>]"
    by (simp add: lunch_tag_def p)
  show ?thesis
    using mentions_in_order [where L = example_lib and w = x_lunch_world
        and candidates = "[''x'', ''LUNCH'', ''nobody'', ''lunch'']"
        and words = "[''hello'', ''#x'', ''#LUNCH'', ''#nobody'', ''#lunch'']"]
      mentions_in_order [where L = example_lib and w = x_lunch_world
        and candidates = "[''x'']" and words = "[''#x'']"]
    by (simp add: Let_def f t mx ml)
qed

section \<open>The checks of creation\<close>




section \<open>Saving after a mutation\<close>

text \<open>
  Claim C2, as the code has it. Every mutating operation (\<^verbatim>\<open>/ct\<close>, \<^verbatim>\<open>/st\<close>,
  \<^verbatim>\<open>/dt\<close> and \<^verbatim>\<open>cleanEmptyTags\<close>) calls \<^verbatim>\<open>saveData\<close> before it replies, and drops
  the error: the reply and the state in memory are the same whatever
  \<^verbatim>\<open>json.MarshalIndent\<close> returns and whether or not the file can be written, and when the
  file can be written and the state can be marshalled, the file holds the marshalled state
  after a reply of success.
\<close>

theorem save_error_is_dropped:
  "(\<forall>b m. fst (handle_ct (L\<lparr>marshalIndent := m\<rparr>) s now words (w\<lparr>can_write := b\<rparr>))
           = fst (handle_ct L s now words w)
       \<and> data (snd (handle_ct (L\<lparr>marshalIndent := m\<rparr>) s now words (w\<lparr>can_write := b\<rparr>)))
           = data (snd (handle_ct L s now words w))
       \<and> fst (handle_ct_main (L\<lparr>marshalIndent := m\<rparr>) s now words (w\<lparr>can_write := b\<rparr>))
           = fst (handle_ct_main L s now words w)
       \<and> data (snd (handle_ct_main (L\<lparr>marshalIndent := m\<rparr>) s now words (w\<lparr>can_write := b\<rparr>)))
           = data (snd (handle_ct_main L s now words w))
       \<and> fst (handle_st (L\<lparr>marshalIndent := m\<rparr>) s words (w\<lparr>can_write := b\<rparr>))
           = fst (handle_st L s words w)
       \<and> data (snd (handle_st (L\<lparr>marshalIndent := m\<rparr>) s words (w\<lparr>can_write := b\<rparr>)))
           = data (snd (handle_st L s words w))
       \<and> fst (handle_dt (L\<lparr>marshalIndent := m\<rparr>) s admins words (w\<lparr>can_write := b\<rparr>))
           = fst (handle_dt L s admins words w)
       \<and> data (snd (handle_dt (L\<lparr>marshalIndent := m\<rparr>) s admins words (w\<lparr>can_write := b\<rparr>)))
           = data (snd (handle_dt L s admins words w))
       \<and> fst (handle_dt_main (L\<lparr>marshalIndent := m\<rparr>) s words (w\<lparr>can_write := b\<rparr>))
           = fst (handle_dt_main L s words w)
       \<and> data (snd (handle_dt_main (L\<lparr>marshalIndent := m\<rparr>) s words (w\<lparr>can_write := b\<rparr>)))
           = data (snd (handle_dt_main L s words w))
       \<and> data (cleanEmptyTags (L\<lparr>marshalIndent := m\<rparr>) (w\<lparr>can_write := b\<rparr>))
           = data (cleanEmptyTags L w))
   \<and> (\<forall>bytes. can_write w \<longrightarrow>
        (\<forall>u n d. fst (handle_ct L s now words w) = Sent (Created u n d)
            \<and> marshalIndent L (data (snd (handle_ct L s now words w))) = Some bytes \<longrightarrow>
            dataFile (snd (handle_ct L s now words w)) = Some bytes)
      \<and> (\<forall>u n d. fst (handle_ct_main L s now words w) = Sent (Created u n d)
            \<and> marshalIndent L (data (snd (handle_ct_main L s now words w))) = Some bytes \<longrightarrow>
            dataFile (snd (handle_ct_main L s now words w)) = Some bytes)
      \<and> (\<forall>n. fst (handle_st L s words w) = Sent (Subscribed n)
            \<and> marshalIndent L (data (snd (handle_st L s words w))) = Some bytes \<longrightarrow>
            dataFile (snd (handle_st L s words w)) = Some bytes)
      \<and> (\<forall>n. fst (handle_dt L s admins words w) = Sent (Deleted n)
            \<and> marshalIndent L (data (snd (handle_dt L s admins words w))) = Some bytes \<longrightarrow>
            dataFile (snd (handle_dt L s admins words w)) = Some bytes)
      \<and> (\<forall>n. fst (handle_dt_main L s words w) = Sent (Deleted n)
            \<and> marshalIndent L (data (snd (handle_dt_main L s words w))) = Some bytes \<longrightarrow>
            dataFile (snd (handle_dt_main L s words w)) = Some bytes)
      \<and> (marshalIndent L (data (cleanEmptyTags L w)) = Some bytes \<longrightarrow>
            dataFile (cleanEmptyTags L w) = Some bytes))"
  unfolding handle_dt_main_eq
  apply (intro conjI allI impI)
  subgoal by (simp add: handle_ct_save_fails)
  subgoal by (simp add: handle_ct_save_fails)
  subgoal by (simp add: handle_ct_main_save_fails)
  subgoal by (simp add: handle_ct_main_save_fails)
  subgoal by (simp add: handle_st_save_fails)
  subgoal by (simp add: handle_st_save_fails)
  subgoal by (simp add: handle_dt_save_fails)
  subgoal by (simp add: handle_dt_save_fails)
  subgoal by (simp add: handle_dt_save_fails)
  subgoal by (simp add: handle_dt_save_fails)
  subgoal by (simp add: cleanEmptyTags_save_fails)
  subgoal by (blast intro: handle_ct_saved)
  subgoal by (blast intro: handle_ct_main_saved)
  subgoal by (blast intro: handle_st_saved)
  subgoal by (blast intro: handle_dt_saved)
  subgoal by (blast intro: handle_dt_saved)
  subgoal by (blast intro: cleanEmptyTags_saved)
  done

theorem save_error_is_dropped_witness:
  \<open>fst (handle_dt example_lib alice None [''/dt'', ''lunch''] (readonly_world\<lparr>can_write := True\<rparr>))
     = Sent (Deleted ''lunch'')
   \<and> fst (handle_dt example_lib alice None [''/dt'', ''lunch''] readonly_world) = Sent (Deleted ''lunch'')
   \<and> data (snd (handle_dt example_lib alice None [''/dt'', ''lunch''] readonly_world)) = \<lparr>Tags = []\<rparr>
   \<and> can_write (readonly_world\<lparr>can_write := True\<rparr>)
   \<and> marshalIndent example_lib \<lparr>Tags = []\<rparr> = Some ''{"tags":[]}''
   \<and> dataFile (snd (handle_dt example_lib alice None [''/dt'', ''lunch'']
        (readonly_world\<lparr>can_write := True\<rparr>))) = Some ''{"tags":[]}''\<close>
proof -
  have r: "handle_dt example_lib alice None [''/dt'', ''lunch''] readonly_world
      = (Sent (Deleted ''lunch''), readonly_world\<lparr>data := \<lparr>Tags = []\<rparr>\<rparr>)"
    by (simp add: handle_dt_def findTag_def Let_def saveData_def readonly_world_def lunch_tag_def
        alice_def example_lib_def example_docs_def lower_ascii_def)
  have m: \<open>marshalIndent example_lib \<lparr>Tags = []\<rparr> = Some ''{"tags":[]}''\<close>
    by (simp add: example_lib_def example_docs_def)
  note t = save_error_is_dropped [where L = example_lib and s = alice and admins = None
      and words = "[''/dt'', ''lunch'']" and w = "readonly_world\<lparr>can_write := True\<rparr>" and now = 0]
  from t have "fst (handle_dt (example_lib\<lparr>marshalIndent := marshalIndent example_lib\<rparr>) alice None
              [''/dt'', ''lunch''] (readonly_world\<lparr>can_write := True, can_write := False\<rparr>))
        = fst (handle_dt example_lib alice None [''/dt'', ''lunch''] (readonly_world\<lparr>can_write := True\<rparr>))
      \<and> data (snd (handle_dt (example_lib\<lparr>marshalIndent := marshalIndent example_lib\<rparr>) alice None
              [''/dt'', ''lunch''] (readonly_world\<lparr>can_write := True, can_write := False\<rparr>)))
        = data (snd (handle_dt example_lib alice None [''/dt'', ''lunch''] (readonly_world\<lparr>can_write := True\<rparr>)))"
    by blast
  moreover have "readonly_world\<lparr>can_write := True, can_write := False\<rparr> = readonly_world"
    by (simp add: readonly_world_def)
  ultimately have a: "fst (handle_dt example_lib alice None [''/dt'', ''lunch'']
        (readonly_world\<lparr>can_write := True\<rparr>)) = Sent (Deleted ''lunch'')"
    and b: "data (snd (handle_dt example_lib alice None [''/dt'', ''lunch'']
        (readonly_world\<lparr>can_write := True\<rparr>))) = \<lparr>Tags = []\<rparr>"
    using r by simp_all
  from t have \<open>\<And>n bytes. fst (handle_dt example_lib alice None [''/dt'', ''lunch'']
            (readonly_world\<lparr>can_write := True\<rparr>)) = Sent (Deleted n) \<Longrightarrow>
          marshalIndent example_lib (data (snd (handle_dt example_lib alice None [''/dt'', ''lunch'']
            (readonly_world\<lparr>can_write := True\<rparr>)))) = Some bytes \<Longrightarrow>
          dataFile (snd (handle_dt example_lib alice None [''/dt'', ''lunch'']
            (readonly_world\<lparr>can_write := True\<rparr>))) = Some bytes\<close>
    by simp
  from this [OF a] b m have "dataFile (snd (handle_dt example_lib alice None [''/dt'', ''lunch'']
        (readonly_world\<lparr>can_write := True\<rparr>))) = Some ''{\"tags\":[]}''"
    by simp
  with a r m show ?thesis by simp
qed

text \<open>
  The claim as the spec states it fails: when the file cannot be written, the creator's
  \<^verbatim>\<open>/dt\<close> replies that the tag is deleted, the tag is gone from memory, the file still
  holds it, and the \<^verbatim>\<open>saveData\<close> that the handler ran on that state returned an error.
\<close>

theorem save_error_not_reported:
  \<open>fst (handle_dt example_lib alice None [''/dt'', ''lunch''] readonly_world) = Sent (Deleted ''lunch'')
   \<and> data (snd (handle_dt example_lib alice None [''/dt'', ''lunch''] readonly_world)) = \<lparr>Tags = []\<rparr>
   \<and> dataFile (snd (handle_dt example_lib alice None [''/dt'', ''lunch''] readonly_world))
       = Some ''{"tags":[lunch]}''
   \<and> saveData example_lib (readonly_world\<lparr>data := \<lparr>Tags = []\<rparr>\<rparr>)
       = (Some WriteError, readonly_world\<lparr>data := \<lparr>Tags = []\<rparr>\<rparr>)\<close>
  by (simp add: handle_dt_def findTag_def Let_def saveData_def readonly_world_def lunch_tag_def
      alice_def example_lib_def example_docs_def lower_ascii_def)

section \<open>Loading\<close>

text \<open>
  Claim C3, as the code has it. With the environment in place (\<^verbatim>\<open>.env\<close> loaded, token
  set) and a file that can be read:
  \<^item> for every state, on a file that can be written, \<^verbatim>\<open>saveData\<close> returns no error and
    \<^verbatim>\<open>loadData\<close> in a new process then returns no error and reconstructs the tags that
    were saved, each with all its fields, except that \<^verbatim>\<open>created_at\<close> comes back as the
    same instant without its monotonic clock reading; so what is loaded is equal to what
    was saved exactly when no tag carried such a reading;
  \<^item> on a file that does not decode under the current schema and decodes under the old
    one, \<^verbatim>\<open>loadData\<close> returns no error, every tag keeps its name, creator, description
    and time, its subscribers are the old ids in their order, each with the username
    \<^verbatim>\<open>User\<close> followed by its id, and the file holds the converted state, provided the
    converted state can be marshalled and written; every document that the old program
    wrote with a subscriber in it is such a file;
  \<^item> on a file that decodes under neither schema, as a file that is not JSON,
    \<^verbatim>\<open>loadData\<close> returns the error that neither format could be unmarshalled.
\<close>

theorem load_after_save_and_migration:
  "dotenv_ok \<and> token \<noteq> [] \<longrightarrow>
     (can_write w \<and> can_read w \<longrightarrow>
        fst (saveData (go_json lower formatTime partial) w) = None
      \<and> loadData (go_json lower formatTime partial) dotenv_ok token
           ((snd (saveData (go_json lower formatTime partial) w))\<lparr>data := \<lparr>Tags = []\<rparr>\<rparr>)
          = (Returned None,
             (snd (saveData (go_json lower formatTime partial) w))
               \<lparr>data := \<lparr>Tags = map (\<lambda>tag. tag\<lparr>CreatedAt := Time (wall (CreatedAt tag)) None\<rparr>)
                                    (Tags (data w))\<rparr>\<rparr>)
      \<and> (map (\<lambda>tag. tag\<lparr>CreatedAt := Time (wall (CreatedAt tag)) None\<rparr>) (Tags (data w))
            = Tags (data w))
          = (\<forall>tag \<in> set (Tags (data w)). monotonic (CreatedAt tag) = None))
   \<and> (\<forall>c d old bytes. dataFile v = Some c \<and> can_read v
          \<and> unmarshalData L c (data v) = (False, d) \<and> unmarshalOldData L c = Some old
          \<and> marshalIndent L
               \<lparr>Tags = map (\<lambda>oldTag.
                   \<lparr>Name = old_Name oldTag, CreatorID = old_CreatorID oldTag,
                    CreatorName = old_CreatorName oldTag, Description = old_Description oldTag,
                    Subscribers = map (\<lambda>subID. \<lparr>ID = subID, Username = ''User'' @ format_d (sint subID)\<rparr>)
                                    (old_Subscribers oldTag),
                    CreatedAt = old_CreatedAt oldTag\<rparr>) (old_Tags old)\<rparr> = Some bytes
          \<and> can_write v \<longrightarrow>
          loadData L dotenv_ok token v
            = (Returned None,
               v\<lparr>data := \<lparr>Tags = map (\<lambda>oldTag.
                   \<lparr>Name = old_Name oldTag, CreatorID = old_CreatorID oldTag,
                    CreatorName = old_CreatorName oldTag, Description = old_Description oldTag,
                    Subscribers = map (\<lambda>subID. \<lparr>ID = subID, Username = ''User'' @ format_d (sint subID)\<rparr>)
                                    (old_Subscribers oldTag),
                    CreatedAt = old_CreatedAt oldTag\<rparr>) (old_Tags old)\<rparr>,
                 dataFile := Some bytes\<rparr>))
   \<and> (\<forall>c d. dataFile v = Some c \<and> can_read v
          \<and> unmarshalData L c (data v) = (False, d) \<and> unmarshalOldData L c = None \<longrightarrow>
          loadData L dotenv_ok token v
            = (Returned (Some FailedUnmarshalOldAndNew), v\<lparr>data := d\<rparr>))
   \<and> (\<forall>old. dataFile w = Some (Valid (encodeOldData old)) \<and> can_read w \<and> can_write w
          \<and> (\<exists>oldTag \<in> set (old_Tags old). old_Subscribers oldTag \<noteq> []) \<longrightarrow>
          loadData (go_json lower formatTime partial) dotenv_ok token w
            = (Returned None,
               w\<lparr>data := \<lparr>Tags = map (\<lambda>oldTag.
                   \<lparr>Name = old_Name oldTag, CreatorID = old_CreatorID oldTag,
                    CreatorName = old_CreatorName oldTag, Description = old_Description oldTag,
                    Subscribers = map (\<lambda>subID. \<lparr>ID = subID, Username = ''User'' @ format_d (sint subID)\<rparr>)
                                    (old_Subscribers oldTag),
                    CreatedAt = Time (wall (old_CreatedAt oldTag)) None\<rparr>) (old_Tags old)\<rparr>,
                 dataFile := Some (Valid (encodeData \<lparr>Tags = map (\<lambda>oldTag.
                   \<lparr>Name = old_Name oldTag, CreatorID = old_CreatorID oldTag,
                    CreatorName = old_CreatorName oldTag, Description = old_Description oldTag,
                    Subscribers = map (\<lambda>subID. \<lparr>ID = subID, Username = ''User'' @ format_d (sint subID)\<rparr>)
                                    (old_Subscribers oldTag),
                    CreatedAt = Time (wall (old_CreatedAt oldTag)) None\<rparr>) (old_Tags old)\<rparr>))\<rparr>))
   \<and> (dataFile w = Some Invalid \<and> can_read w \<longrightarrow>
          loadData (go_json lower formatTime partial) dotenv_ok token w
            = (Returned (Some FailedUnmarshalOldAndNew), w))"
proof (intro impI conjI allI; (elim conjE)?)
  assume env: "dotenv_ok" "token \<noteq> []" and rw: "can_write w" "can_read w"
  let ?L = "go_json lower formatTime partial"
  from rw(1) have s: "saveData ?L w = (None, w\<lparr>dataFile := Some (Valid (encodeData (data w)))\<rparr>)"
    by (rule saveData_go_json)
  show "fst (saveData ?L w) = None" by (simp add: s)
  show "loadData ?L dotenv_ok token ((snd (saveData ?L w))\<lparr>data := \<lparr>Tags = []\<rparr>\<rparr>)
      = (Returned None, (snd (saveData ?L w))
           \<lparr>data := \<lparr>Tags = map (\<lambda>tag. tag\<lparr>CreatedAt := Time (wall (CreatedAt tag)) None\<rparr>)
                                (Tags (data w))\<rparr>\<rparr>)"
    unfolding s using env rw(2)
    by (simp add: loadData_current [where bytes = "Valid (encodeData (data w))"]
        unmarshal_encodeData)
  show "(map (\<lambda>tag. tag\<lparr>CreatedAt := Time (wall (CreatedAt tag)) None\<rparr>) (Tags (data w))
            = Tags (data w))
          = (\<forall>tag \<in> set (Tags (data w)). monotonic (CreatedAt tag) = None)"
    by (rule strip_id_iff)
next
  fix c d old bytes
  let ?migrated = "map (\<lambda>oldTag.
                   \<lparr>Name = old_Name oldTag, CreatorID = old_CreatorID oldTag,
                    CreatorName = old_CreatorName oldTag, Description = old_Description oldTag,
                    Subscribers = map (\<lambda>subID. \<lparr>ID = subID, Username = ''User'' @ format_d (sint subID)\<rparr>)
                                    (old_Subscribers oldTag),
                    CreatedAt = old_CreatedAt oldTag\<rparr>) (old_Tags (old :: OldData))"
  have m: "map convertTag (old_Tags old) = ?migrated"
    by (simp add: convertTag_def convertSubscriber_def placeholder_def)
  assume "dotenv_ok" "token \<noteq> []" "dataFile v = Some c" "can_read v"
    "unmarshalData L c (data v) = (False, d)" "unmarshalOldData L c = Some old"
    "marshalIndent L \<lparr>Tags = ?migrated\<rparr> = Some bytes" "can_write v"
  then show "loadData L dotenv_ok token v
      = (Returned None, v\<lparr>data := \<lparr>Tags = ?migrated\<rparr>, dataFile := Some bytes\<rparr>)"
    using loadData_legacy [of dotenv_ok token v c L d old bytes] by (simp add: m)
next
  fix c d
  assume "dotenv_ok" "token \<noteq> []" "dataFile v = Some c" "can_read v"
    "unmarshalData L c (data v) = (False, d)" "unmarshalOldData L c = None"
  then show "loadData L dotenv_ok token v
      = (Returned (Some FailedUnmarshalOldAndNew), v\<lparr>data := d\<rparr>)"
    by (rule loadData_corrupt)
next
  fix old
  assume "dotenv_ok" "token \<noteq> []" "dataFile w = Some (Valid (encodeOldData old))"
    "can_read w" "can_write w" "\<exists>oldTag \<in> set (old_Tags old). old_Subscribers oldTag \<noteq> []"
  then show "loadData (go_json lower formatTime partial) dotenv_ok token w
      = (Returned None,
         w\<lparr>data := \<lparr>Tags = map (\<lambda>oldTag.
                   \<lparr>Name = old_Name oldTag, CreatorID = old_CreatorID oldTag,
                    CreatorName = old_CreatorName oldTag, Description = old_Description oldTag,
                    Subscribers = map (\<lambda>subID. \<lparr>ID = subID, Username = ''User'' @ format_d (sint subID)\<rparr>)
                                    (old_Subscribers oldTag),
                    CreatedAt = Time (wall (old_CreatedAt oldTag)) None\<rparr>) (old_Tags old)\<rparr>,
           dataFile := Some (Valid (encodeData \<lparr>Tags = map (\<lambda>oldTag.
                   \<lparr>Name = old_Name oldTag, CreatorID = old_CreatorID oldTag,
                    CreatorName = old_CreatorName oldTag, Description = old_Description oldTag,
                    Subscribers = map (\<lambda>subID. \<lparr>ID = subID, Username = ''User'' @ format_d (sint subID)\<rparr>)
                                    (old_Subscribers oldTag),
                    CreatedAt = Time (wall (old_CreatedAt oldTag)) None\<rparr>) (old_Tags old)\<rparr>))\<rparr>)"
    by (rule loadData_old_program)
next
  assume "dotenv_ok" "token \<noteq> []" "dataFile w = Some Invalid" "can_read w"
  then show "loadData (go_json lower formatTime partial) dotenv_ok token w
      = (Returned (Some FailedUnmarshalOldAndNew), w)"
    by (rule loadData_invalid)
qed

theorem load_after_save_and_migration_witness:
  "can_write after_create \<and> can_read after_create
   \<and> fst (saveData example_json after_create) = None
   \<and> loadData example_json True ''token''
        ((snd (saveData example_json after_create))\<lparr>data := \<lparr>Tags = []\<rparr>\<rparr>)
       = (Returned None,
          (snd (saveData example_json after_create))
            \<lparr>data := \<lparr>Tags = [\<lparr>Name = ''lunch'', CreatorID = 42, CreatorName = ''alice'',
                Description = [], Subscribers = [], CreatedAt = Time 1700000000 None\<rparr>]\<rparr>\<rparr>)
   \<and> unmarshalData example_json (Valid legacy_json) \<lparr>Tags = []\<rparr> = (False, \<lparr>Tags = []\<rparr>)
   \<and> unmarshalOldData example_json (Valid legacy_json) = Some legacy_data
   \<and> loadData example_json True ''token'' legacy_world
       = (Returned None,
          legacy_world\<lparr>data := \<lparr>Tags = [x_tag]\<rparr>,
                       dataFile := Some (Valid (encodeData \<lparr>Tags = [x_tag]\<rparr>))\<rparr>)
   \<and> loadData example_json True ''token'' wrong_world
       = (Returned (Some FailedUnmarshalOldAndNew), wrong_world)
   \<and> loadData example_json True ''token'' garbage_world
       = (Returned (Some FailedUnmarshalOldAndNew), garbage_world)"
proof -
  have env: "True \<and> ''token'' \<noteq> []" by simp
  have rw: "can_write after_create" "can_read after_create"
    by (simp_all add: after_create_eq)
  have tags: "map (\<lambda>tag. tag\<lparr>CreatedAt := Time (wall (CreatedAt tag)) None\<rparr>) (Tags (data after_create))
      = [\<lparr>Name = ''lunch'', CreatorID = 42, CreatorName = ''alice'',
          Description = [], Subscribers = [], CreatedAt = Time 1700000000 None\<rparr>]"
    by (simp add: after_create_eq)
  have lw: "dataFile legacy_world = Some (Valid legacy_json)" "can_read legacy_world"
    "can_write legacy_world" "data legacy_world = \<lparr>Tags = []\<rparr>"
    by (simp_all add: legacy_world_def)
  have ln: "unmarshalData example_json (Valid legacy_json) \<lparr>Tags = []\<rparr> = (False, \<lparr>Tags = []\<rparr>)"
    by (simp add: example_json_def go_json_def legacy_json_def member_def field_def)
  have lo: "unmarshalOldData example_json (Valid legacy_json) = Some legacy_data"
    by (simp add: example_json_def go_json_def legacy_json_def legacy_data_def member_def
        field_def zero_Time_def)
  have p: "format_d 5 = ''5''" "format_d 6 = ''6''"
    by (simp_all add: format_d_def digits.simps digit_def)
  have mg: "map (\<lambda>oldTag.
                   \<lparr>Name = old_Name oldTag, CreatorID = old_CreatorID oldTag,
                    CreatorName = old_CreatorName oldTag, Description = old_Description oldTag,
                    Subscribers = map (\<lambda>subID. \<lparr>ID = subID, Username = ''User'' @ format_d (sint subID)\<rparr>)
                                    (old_Subscribers oldTag),
                    CreatedAt = old_CreatedAt oldTag\<rparr>) (old_Tags legacy_data) = [x_tag]"
    by (simp add: legacy_data_def x_tag_def p)
  have lm: "marshalIndent example_json \<lparr>Tags = [x_tag]\<rparr> = Some (Valid (encodeData \<lparr>Tags = [x_tag]\<rparr>))"
    by (simp add: example_json_def go_json_def)
  have ww: "dataFile wrong_world = Some (Valid (JObject [(''tags'', JString ''none'')]))"
    "can_read wrong_world" "data wrong_world = \<lparr>Tags = []\<rparr>"
    "wrong_world\<lparr>data := \<lparr>Tags = []\<rparr>\<rparr> = wrong_world"
    by (simp_all add: wrong_world_def)
  have wn: "unmarshalData example_json (Valid (JObject [(''tags'', JString ''none'')])) \<lparr>Tags = []\<rparr>
      = (False, \<lparr>Tags = []\<rparr>)"
    "unmarshalOldData example_json (Valid (JObject [(''tags'', JString ''none'')])) = None"
    by (simp_all add: example_json_def go_json_def member_def field_def)
  have gw: "dataFile garbage_world = Some Invalid" "can_read garbage_world"
    by (simp_all add: garbage_world_def)
  note t = load_after_save_and_migration [where lower = lower_ascii and formatTime = format_d
      and partial = "\<lambda>j d. d" and L = example_json and dotenv_ok = True and token = "''token''",
      folded example_json_def]
  from t [where w = after_create and v = legacy_world] env rw
  have a: "fst (saveData example_json after_create) = None
      \<and> loadData example_json True ''token''
           ((snd (saveData example_json after_create))\<lparr>data := \<lparr>Tags = []\<rparr>\<rparr>)
          = (Returned None,
             (snd (saveData example_json after_create))
               \<lparr>data := \<lparr>Tags = map (\<lambda>tag. tag\<lparr>CreatedAt := Time (wall (CreatedAt tag)) None\<rparr>)
                                    (Tags (data after_create))\<rparr>\<rparr>)"
    by blast
  have ln': "unmarshalData example_json (Valid legacy_json) (data legacy_world) = (False, \<lparr>Tags = []\<rparr>)"
    by (simp add: lw(4) ln)
  have lm': "marshalIndent example_json
      \<lparr>Tags = map (\<lambda>oldTag.
                   \<lparr>Name = old_Name oldTag, CreatorID = old_CreatorID oldTag,
                    CreatorName = old_CreatorName oldTag, Description = old_Description oldTag,
                    Subscribers = map (\<lambda>subID. \<lparr>ID = subID, Username = ''User'' @ format_d (sint subID)\<rparr>)
                                    (old_Subscribers oldTag),
                    CreatedAt = old_CreatedAt oldTag\<rparr>) (old_Tags legacy_data)\<rparr>
      = Some (Valid (encodeData \<lparr>Tags = [x_tag]\<rparr>))"
    by (simp only: mg lm)
  from t [where w = after_create and v = legacy_world] env lw(1,2,3) ln' lo lm'
  have "loadData example_json True ''token'' legacy_world
      = (Returned None,
         legacy_world\<lparr>data := \<lparr>Tags = map (\<lambda>oldTag.
                   \<lparr>Name = old_Name oldTag, CreatorID = old_CreatorID oldTag,
                    CreatorName = old_CreatorName oldTag, Description = old_Description oldTag,
                    Subscribers = map (\<lambda>subID. \<lparr>ID = subID, Username = ''User'' @ format_d (sint subID)\<rparr>)
                                    (old_Subscribers oldTag),
                    CreatedAt = old_CreatedAt oldTag\<rparr>) (old_Tags legacy_data)\<rparr>,
                      dataFile := Some (Valid (encodeData \<lparr>Tags = [x_tag]\<rparr>))\<rparr>)"
    by blast
  then have b: "loadData example_json True ''token'' legacy_world
      = (Returned None,
         legacy_world\<lparr>data := \<lparr>Tags = [x_tag]\<rparr>,
                      dataFile := Some (Valid (encodeData \<lparr>Tags = [x_tag]\<rparr>))\<rparr>)"
    by (simp only: mg)
  have wn': "unmarshalData example_json (Valid (JObject [(''tags'', JString ''none'')])) (data wrong_world)
      = (False, \<lparr>Tags = []\<rparr>)"
    by (simp only: ww(3) wn)
  from t [where w = garbage_world and v = wrong_world] env ww(1,2) wn' wn(2)
  have c: "loadData example_json True ''token'' wrong_world
        = (Returned (Some FailedUnmarshalOldAndNew), wrong_world\<lparr>data := \<lparr>Tags = []\<rparr>\<rparr>)"
    by blast
  from t [where w = garbage_world and v = wrong_world] env gw
  have d: "loadData example_json True ''token'' garbage_world
        = (Returned (Some FailedUnmarshalOldAndNew), garbage_world)"
    by blast
  from a b c d rw ln lo show ?thesis by (simp add: tags ww(4))
qed

text \<open>
  The claim as the spec states it fails: the tag that \<^verbatim>\<open>/ct\<close> creates has the time of
  \<^verbatim>\<open>time.Now\<close>, with a monotonic clock reading; saved and loaded by a new process, the
  tag has the same instant without the reading, and the repository is not equal to the
  one that was saved.
\<close>

theorem save_then_load_drops_monotonic:
  "fst (handle_ct example_json alice just_now [''/ct'', ''lunch''] json_world)
     = Sent (Created ''alice'' ''lunch'' [])
   \<and> Tags (data after_create)
     = [\<lparr>Name = ''lunch'', CreatorID = 42, CreatorName = ''alice'', Description = [],
         Subscribers = [], CreatedAt = Time 1700000000 (Some 12345)\<rparr>]
   \<and> fst (saveData example_json after_create) = None
   \<and> fst (loadData example_json True ''token''
            ((snd (saveData example_json after_create))\<lparr>data := \<lparr>Tags = []\<rparr>\<rparr>)) = Returned None
   \<and> Tags (data after_restart)
     = [\<lparr>Name = ''lunch'', CreatorID = 42, CreatorName = ''alice'', Description = [],
         Subscribers = [], CreatedAt = Time 1700000000 None\<rparr>]
   \<and> data after_restart \<noteq> data after_create"
proof -
  have c: "fst (handle_ct example_json alice just_now [''/ct'', ''lunch''] json_world)
      = Sent (Created ''alice'' ''lunch'' [])"
    by (simp add: handle_ct_def findTag_def Let_def json_world_def alice_def)
  have s: "saveData example_json after_create = (None, after_create)"
    by (simp add: after_create_eq saveData_def example_json_def go_json_def encodeData_def
        encodeTag_def)
  have l: "loadData example_json True ''token'' (after_create\<lparr>data := \<lparr>Tags = []\<rparr>\<rparr>)
      = (Returned None, after_create\<lparr>data := \<lparr>Tags = [\<lparr>Name = ''lunch'', CreatorID = 42,
           CreatorName = ''alice'', Description = [], Subscribers = [],
           CreatedAt = Time 1700000000 None\<rparr>]\<rparr>\<rparr>)"
    by (simp add: after_create_eq loadData_def example_json_def go_json_def member_def field_def)
  have r: "after_restart = after_create\<lparr>data := \<lparr>Tags = [\<lparr>Name = ''lunch'', CreatorID = 42,
           CreatorName = ''alice'', Description = [], Subscribers = [],
           CreatedAt = Time 1700000000 None\<rparr>]\<rparr>\<rparr>"
    by (simp add: after_restart_def s l)
  have t1: "Tags (data after_create)
     = [\<lparr>Name = ''lunch'', CreatorID = 42, CreatorName = ''alice'', Description = [],
         Subscribers = [], CreatedAt = Time 1700000000 (Some 12345)\<rparr>]"
    by (simp add: after_create_eq)
  have t2: "Tags (data after_restart)
     = [\<lparr>Name = ''lunch'', CreatorID = 42, CreatorName = ''alice'', Description = [],
         Subscribers = [], CreatedAt = Time 1700000000 None\<rparr>]"
    by (simp add: r)
  have ne: "data after_restart \<noteq> data after_create"
  proof
    assume "data after_restart = data after_create"
    then have "Tags (data after_restart) = Tags (data after_create)" by simp
    then show False unfolding t1 t2 by simp
  qed
  from c t1 t2 ne show ?thesis by (simp add: s l)
qed

end
